theory Spec2Isabelle
  imports Complex_Main
begin

section \<open>Data model\<close>

text \<open>
  The trading engine (\<^verbatim>\<open>nexus_trading_engine_complete.js\<close>), the exit engine
  (\<^verbatim>\<open>nexus_exit_engine.js\<close>) and the API server (\<^verbatim>\<open>nexus_api_server.js\<close>) are embedded
  as functions on explicit state.

  JavaScript numbers are modelled as exact reals: rounding of IEEE doubles is not part of
  the model. The special values that the code tests for (\<^verbatim>\<open>NaN\<close>, \<^verbatim>\<open>Infinity\<close>) are
  modelled explicitly where the code divides, see \<open>jsnum\<close> below.
  \<^verbatim>\<open>Math.random()\<close>, \<^verbatim>\<open>Date.now()\<close> and the UTC hour are parameters of the functions
  that read them. Logging and the HTTP push \<^verbatim>\<open>saveToVPS\<close> do not change the state of
  the process and are left out.
\<close>

type_synonym asset = string

text \<open>
  An outcome is a JavaScript string. The empty string stands for every falsy value
  (\<^verbatim>\<open>undefined\<close>, \<^verbatim>\<open>null\<close>, \<^verbatim>\<open>''\<close>): the code only ever tests an outcome with \<^verbatim>\<open>!outcome\<close>,
  \<^verbatim>\<open>t.outcome &&\<close> and \<^verbatim>\<open>===\<close> against a literal, which cannot tell them apart.
\<close>

type_synonym outcome = string

datatype direction = BULLISH | BEARISH

datatype condition = TRENDING_UP | TRENDING_DOWN | RANGING

datatype volatility = LOW | NORMAL | HIGH | EXTREME

datatype session = SYDNEY | TOKYO | LONDON | NEW_YORK | OVERLAP

datatype risk_mode = conservative | aggressive

record risk_config =
  stopPct :: real
  target1 :: real
  target2 :: real
  minConfidence :: int

text \<open>\<^verbatim>\<open>RISK_CONFIGS\<close>\<close>

fun RISK_CONFIGS :: "risk_mode \<Rightarrow> risk_config" where
  "RISK_CONFIGS conservative =
     \<lparr>stopPct = 0.005, target1 = 1.5, target2 = 2.5, minConfidence = 8\<rparr>"
| "RISK_CONFIGS aggressive =
     \<lparr>stopPct = 0.003, target1 = 1.0, target2 = 2.0, minConfidence = 6\<rparr>"

text \<open>\<^verbatim>\<open>CONFIG.RISK_PER_TRADE\<close>\<close>

definition RISK_PER_TRADE :: real where
  "RISK_PER_TRADE = 10"

text \<open>One element of \<^verbatim>\<open>priceHistory[asset]\<close>: \<^verbatim>\<open>{ price, change, time }\<close>.\<close>

record sample =
  price :: real
  change :: real
  time :: int

text \<open>
  The object built by \<^verbatim>\<open>calculateSetupLevels\<close> and completed by \<^verbatim>\<open>generateAISetup\<close>.
  \<open>entry_min\<close> and \<open>entry_max\<close> are \<^verbatim>\<open>setup.entry.min\<close> and \<^verbatim>\<open>setup.entry.max\<close>;
  \<open>originalStop\<close> and \<open>recorded\<close> are absent on a fresh object (\<open>None\<close>, \<open>False\<close>).
\<close>

record position_setup =
  entry_min :: real
  entry_max :: real
  stop :: real
  t1 :: real
  t2 :: real
  entryPrice :: real
  originalStop :: "real option"
  confidence :: int
  direction :: direction
  timestamp :: int
  status :: string
  reachedTarget1 :: bool
  reachedTarget2 :: bool
  setup_marketCondition :: condition
  setup_volatilityLevel :: volatility
  setup_sessionActive :: session
  recorded :: bool

text \<open>
  An element of \<^verbatim>\<open>tradeDatabase.trades\<close>. The trading engine writes the first eight
  fields; the exit engine and the API server add \<^verbatim>\<open>exitPrice\<close>, \<^verbatim>\<open>exitTime\<close> and
  \<^verbatim>\<open>closedBy\<close> (absent: \<open>None\<close>, \<open>None\<close>, the empty string). The API server writes no
  market condition, volatility level or session (absent: \<open>None\<close>).
\<close>

record trade =
  trade_asset :: asset
  trade_setup :: position_setup
  trade_outcome :: outcome
  trade_profit :: real
  trade_timestamp :: int
  trade_marketCondition :: "condition option"
  trade_volatilityLevel :: "volatility option"
  trade_sessionActive :: "session option"
  exitPrice :: "real option"
  exitTime :: "int option"
  closedBy :: string

subsection \<open>Numbers that may be infinite or undefined\<close>

datatype jsnum = Fin real | PosInf | NegInf | NaN

text \<open>\<^verbatim>\<open>a / b\<close> on two finite numbers (a zero divisor is taken as \<^verbatim>\<open>+0\<close>).\<close>

definition js_div :: "real \<Rightarrow> real \<Rightarrow> jsnum" where
  "js_div a b =
     (if b \<noteq> 0 then Fin (a / b)
      else if a > 0 then PosInf
      else if a < 0 then NegInf
      else NaN)"

text \<open>\<^verbatim>\<open>Math.abs\<close>\<close>

fun js_abs :: "jsnum \<Rightarrow> jsnum" where
  "js_abs (Fin a) = Fin \<bar>a\<bar>"
| "js_abs PosInf = PosInf"
| "js_abs NegInf = PosInf"
| "js_abs NaN = NaN"

text \<open>\<^verbatim>\<open>x > 0\<close>: false on \<^verbatim>\<open>NaN\<close>.\<close>

fun js_pos :: "jsnum \<Rightarrow> bool" where
  "js_pos (Fin a) = (a > 0)"
| "js_pos PosInf = True"
| "js_pos NegInf = False"
| "js_pos NaN = False"

text \<open>\<^verbatim>\<open>c / x\<close> for a finite \<^verbatim>\<open>c\<close> and an \<^verbatim>\<open>x\<close> that is positive in the sense of \<open>js_pos\<close>
  or not; a finite number divided by an infinity is zero.\<close>

fun js_div_by :: "real \<Rightarrow> jsnum \<Rightarrow> jsnum" where
  "js_div_by c (Fin a) = js_div c a"
| "js_div_by c PosInf = Fin 0"
| "js_div_by c NegInf = Fin 0"
| "js_div_by c NaN = NaN"

text \<open>\<^verbatim>\<open>x * y\<close>: zero times an infinity is \<^verbatim>\<open>NaN\<close>.\<close>

fun js_inf_times :: "bool \<Rightarrow> real \<Rightarrow> jsnum" where
  "js_inf_times positive a =
     (if a = 0 then NaN
      else if (a > 0) = positive then PosInf else NegInf)"

fun js_mul :: "jsnum \<Rightarrow> jsnum \<Rightarrow> jsnum" where
  "js_mul NaN _ = NaN"
| "js_mul _ NaN = NaN"
| "js_mul (Fin a) (Fin b) = Fin (a * b)"
| "js_mul (Fin a) PosInf = js_inf_times True a"
| "js_mul (Fin a) NegInf = js_inf_times False a"
| "js_mul PosInf (Fin b) = js_inf_times True b"
| "js_mul NegInf (Fin b) = js_inf_times False b"
| "js_mul PosInf PosInf = PosInf"
| "js_mul PosInf NegInf = NegInf"
| "js_mul NegInf PosInf = NegInf"
| "js_mul NegInf NegInf = PosInf"

text \<open>\<^verbatim>\<open>if (isNaN(x) || !isFinite(x)) x = 0\<close>\<close>

fun sanitize :: "jsnum \<Rightarrow> real" where
  "sanitize (Fin a) = a"
| "sanitize _ = 0"

section \<open>Signal scanning: momentum\<close>

text \<open>
  \<^verbatim>\<open>xs.slice(-n)\<close>: the last \<open>n\<close> elements, all of them when there are fewer.
\<close>

definition slice_last :: "nat \<Rightarrow> 'a list \<Rightarrow> 'a list" where
  "slice_last n xs = drop (length xs - n) xs"

text \<open>
  \<^verbatim>\<open>calculateMomentum\<close>, applied to \<^verbatim>\<open>priceHistory[asset]\<close>. \<open>r\<close> is the value of
  \<^verbatim>\<open>Math.random()\<close>, read only when there are fewer than three samples.
  \<^verbatim>\<open>reduce\<close> adds from the left, starting at 0; \<^verbatim>\<open>p.change || 0\<close> is \<^verbatim>\<open>p.change\<close> on
  numbers.
\<close>

definition calculateMomentum :: "sample list \<Rightarrow> real \<Rightarrow> real" where
  "calculateMomentum history r =
     (if length history < 3 then (if r > 0.5 then 1 else -1)
      else
        let recent = slice_last 3 history;
            avgChange = foldl (\<lambda>sum p. sum + change p) 0 recent / real (length recent)
        in max (-2) (min 2 (avgChange / 2)))"

section \<open>State of the trading engine\<close>

text \<open>\<^verbatim>\<open>tradeDatabase.performance\<close>\<close>

record performance =
  totalTrades :: int
  winners :: int
  losers :: int
  breakevenTrades :: int
  totalProfit :: real
  winRate :: real
  profitFactor :: jsnum
  avgWin :: real
  avgLoss :: real
  breakevenRate :: real

text \<open>
  The module's global variables. \<^verbatim>\<open>activeTrades\<close> and \<^verbatim>\<open>tradeDatabase.activeTrades\<close> are
  written together with the same object at every assignment, so one field stands for
  both; \<open>trades\<close> and \<open>performance\<close> are \<^verbatim>\<open>tradeDatabase.trades\<close> and
  \<^verbatim>\<open>tradeDatabase.performance\<close>.
\<close>

record engine =
  riskMode :: risk_mode
  marketCondition :: condition
  volatilityLevel :: volatility
  priceHistory :: "asset \<Rightarrow> sample list"
  currentPrices :: "asset \<Rightarrow> real"
  lastSignalTime :: "asset \<Rightarrow> int"
  activeTrades :: "asset \<Rightarrow> position_setup option"
  trades :: "trade list"
  performance :: performance

definition initial_performance :: performance where
  "initial_performance =
     \<lparr>totalTrades = 0, winners = 0, losers = 0, breakevenTrades = 0, totalProfit = 0,
      winRate = 0, profitFactor = Fin 0, avgWin = 0, avgLoss = 0, breakevenRate = 0\<rparr>"

text \<open>The values the globals are initialised with.\<close>

definition initial_engine :: engine where
  "initial_engine =
     \<lparr>riskMode = conservative, marketCondition = RANGING, volatilityLevel = NORMAL,
      priceHistory = (\<lambda>_. []), currentPrices = (\<lambda>_. 0), lastSignalTime = (\<lambda>_. 0),
      activeTrades = (\<lambda>_. None), trades = [], performance = initial_performance\<rparr>"

section \<open>Price monitoring and market analysis\<close>

text \<open>\<^verbatim>\<open>updatePrice\<close>; \<open>now\<close> is \<^verbatim>\<open>Date.now()\<close>.\<close>

definition updatePrice :: "engine \<Rightarrow> int \<Rightarrow> asset \<Rightarrow> real \<Rightarrow> real \<Rightarrow> engine" where
  "updatePrice st now a p c =
     (if p = 0 \<or> p \<le> 0 then st
      else
        let pushed = priceHistory st a @ [\<lparr>price = p, change = c, time = now\<rparr>];
            kept = (if length pushed > 50 then tl pushed else pushed)
        in st\<lparr>currentPrices := (currentPrices st)(a := p),
               priceHistory := (priceHistory st)(a := kept)\<rparr>)"

text \<open>The trend label of a window of samples, against the asset's current price.\<close>

definition classify_trend :: "sample list \<Rightarrow> real \<Rightarrow> condition" where
  "classify_trend recent cur =
     (let trend = price (last recent) - price (hd recent)
      in if trend > cur * 0.02 then TRENDING_UP
         else if trend < - cur * 0.02 then TRENDING_DOWN
         else RANGING)"

text \<open>The volatility label of a window of samples.\<close>

definition classify_volatility :: "sample list \<Rightarrow> volatility" where
  "classify_volatility recent =
     (let avgChange = foldl (\<lambda>sum p. sum + \<bar>change p\<bar>) 0 recent / real (length recent)
      in if avgChange > 2.0 then EXTREME
         else if avgChange > 1.5 then HIGH
         else if avgChange > 0.8 then NORMAL
         else LOW)"

text \<open>The callback of the \<^verbatim>\<open>forEach\<close> in \<^verbatim>\<open>detectMarketCondition\<close>, for one asset.\<close>

definition detectAsset :: "engine \<Rightarrow> asset \<Rightarrow> engine" where
  "detectAsset st a =
     (if length (priceHistory st a) \<ge> 5 then
        let recent = slice_last 5 (priceHistory st a)
        in st\<lparr>marketCondition := classify_trend recent (currentPrices st a),
               volatilityLevel := classify_volatility recent\<rparr>
      else st)"

text \<open>\<^verbatim>\<open>detectMarketCondition\<close>: \<^verbatim>\<open>['btc', 'eth'].forEach(...)\<close>\<close>

definition detectMarketCondition :: "engine \<Rightarrow> engine" where
  "detectMarketCondition st = foldl detectAsset st [''btc'', ''eth'']"

section \<open>Trade recording\<close>

text \<open>
  The \<^verbatim>\<open>Calculate P&L\<close> block, shared by both recorders, before any sanitising.
  \<open>riskPerTrade\<close> is \<^verbatim>\<open>CONFIG.RISK_PER_TRADE\<close>.
\<close>

definition calculatePnL :: "real \<Rightarrow> position_setup \<Rightarrow> outcome \<Rightarrow> jsnum" where
  "calculatePnL riskPerTrade s oc =
     (if oc = ''WIN'' then
        let stopDistancePercent = js_abs (js_div (stop s - entryPrice s) (entryPrice s));
            targetDistancePercent = js_abs (js_div (t2 s - entryPrice s) (entryPrice s))
        in if js_pos stopDistancePercent \<and> js_pos targetDistancePercent then
             let positionValueAtRisk = js_div_by riskPerTrade stopDistancePercent
             in js_mul positionValueAtRisk targetDistancePercent
           else Fin (riskPerTrade * 3)
      else if oc = ''LOSS'' then Fin (- riskPerTrade)
      else Fin 0)"

text \<open>
  \<^verbatim>\<open>trades.filter(t => t.outcome === oc).reduce((sum, t) => sum + Math.abs(t.profit || 0), 0)\<close>
\<close>

definition total_abs_profit :: "outcome \<Rightarrow> trade list \<Rightarrow> real" where
  "total_abs_profit oc ts =
     foldl (\<lambda>sum t. sum + \<bar>trade_profit t\<bar>) 0 (filter (\<lambda>t. trade_outcome t = oc) ts)"

text \<open>
  The duplicate check of \<^verbatim>\<open>recordTradeOutcome\<close> (\<^verbatim>\<open>FIX #3\<close>). Every record of this
  program carries its setup, so \<^verbatim>\<open>t.setup?.entryPrice || t.entryPrice || 0\<close> is the
  setup's entry price (0 when that is 0).
\<close>

definition duplicate_exists :: "trade list \<Rightarrow> asset \<Rightarrow> position_setup \<Rightarrow> outcome \<Rightarrow> bool" where
  "duplicate_exists ts a s oc =
     list_ex (\<lambda>t. trade_asset t = a
                \<and> \<bar>entryPrice (trade_setup t) - entryPrice s\<bar> < 0.5
                \<and> trade_outcome t \<noteq> [] \<and> trade_outcome t = oc) ts"

text \<open>The update of \<^verbatim>\<open>tradeDatabase.performance\<close> after the push, in the order of the code.\<close>

definition update_performance :: "performance \<Rightarrow> trade list \<Rightarrow> outcome \<Rightarrow> performance" where
  "update_performance perf ts oc =
     (let p1 = perf\<lparr>totalTrades := int (length ts)\<rparr>;
          p2 = (if oc = ''WIN'' then
                  let w = winners p1 + 1
                  in p1\<lparr>winners := w,
                        avgWin := (if w > 0 then total_abs_profit ''WIN'' ts / real_of_int w else 0)\<rparr>
                else if oc = ''LOSS'' then
                  let l = losers p1 + 1
                  in p1\<lparr>losers := l,
                        avgLoss := (if l > 0 then total_abs_profit ''LOSS'' ts / real_of_int l else 0)\<rparr>
                else if oc = ''BREAKEVEN'' then
                  p1\<lparr>breakevenTrades := breakevenTrades p1 + 1\<rparr>
                else p1);
          p3 = p2\<lparr>winRate := (if totalTrades p2 > 0
                               then real_of_int (winners p2) / real_of_int (totalTrades p2) * 100
                               else 0)\<rparr>;
          totalWinsAmount = total_abs_profit ''WIN'' ts;
          totalLossesAmount = total_abs_profit ''LOSS'' ts
      in p3\<lparr>profitFactor := (if totalLossesAmount > 0 then Fin (totalWinsAmount / totalLossesAmount)
                              else if totalWinsAmount > 0 then PosInf else Fin 0)\<rparr>)"

text \<open>
  \<^verbatim>\<open>recordTradeOutcome(asset, setup, outcome, profit)\<close> of the trading engine. The
  function mutates the setup object (\<^verbatim>\<open>setup.recorded = true\<close>), so the model returns
  the setup next to the state; the pushed record holds the same (mutated) object.
  \<open>profit\<close> is only logged. \<^verbatim>\<open>setup.timestamp || Date.now()\<close> takes \<open>now\<close> for a zero
  timestamp; the three labels are always set on a setup, so their \<^verbatim>\<open>||\<close> fallbacks are
  never taken.
\<close>

definition recordTradeOutcome ::
  "engine \<Rightarrow> int \<Rightarrow> asset \<Rightarrow> position_setup \<Rightarrow> outcome \<Rightarrow> real \<Rightarrow> engine \<times> position_setup" where
  "recordTradeOutcome st now a s oc profit =
     (if oc = [] \<or> oc = ''ACTIVE'' \<or> oc = ''OPEN'' then (st, s)
      else if recorded s then (st, s)
      else if duplicate_exists (trades st) a s oc then (st, s)
      else
        let s' = s\<lparr>recorded := True\<rparr>;
            realizedPnL = sanitize (calculatePnL RISK_PER_TRADE s' oc);
            tr = \<lparr>trade_asset = a, trade_setup = s', trade_outcome = oc,
                  trade_profit = realizedPnL,
                  trade_timestamp = (if timestamp s' = 0 then now else timestamp s'),
                  trade_marketCondition = Some (setup_marketCondition s'),
                  trade_volatilityLevel = Some (setup_volatilityLevel s'),
                  trade_sessionActive = Some (setup_sessionActive s'),
                  exitPrice = None, exitTime = None, closedBy = []\<rparr>;
            ts = trades st @ [tr]
        in (st\<lparr>trades := ts, performance := update_performance (performance st) ts oc\<rparr>, s'))"

section \<open>Trade generation\<close>

text \<open>The object returned by \<^verbatim>\<open>calculateSetupLevels\<close>.\<close>

record levels =
  lv_min :: real
  lv_max :: real
  lv_stop :: real
  lv_t1 :: real
  lv_t2 :: real
  lv_entryPrice :: real

definition calculateSetupLevels :: "asset \<Rightarrow> real \<Rightarrow> direction \<Rightarrow> risk_config \<Rightarrow> levels" where
  "calculateSetupLevels a p d config =
     (if d = BULLISH then
        \<lparr>lv_min = p * 0.9995, lv_max = p * 1.0005,
         lv_stop = p * (1 - stopPct config),
         lv_t1 = p * (1 + stopPct config * target1 config),
         lv_t2 = p * (1 + stopPct config * target2 config),
         lv_entryPrice = p\<rparr>
      else
        \<lparr>lv_min = p * 1.0005, lv_max = p * 0.9995,
         lv_stop = p * (1 + stopPct config),
         lv_t1 = p * (1 - stopPct config * target1 config),
         lv_t2 = p * (1 - stopPct config * target2 config),
         lv_entryPrice = p\<rparr>)"

text \<open>\<^verbatim>\<open>getCurrentSession\<close>, on the UTC hour.\<close>

definition getCurrentSession :: "nat \<Rightarrow> session" where
  "getCurrentSession hour =
     (if hour \<ge> 22 \<or> hour < 7 then SYDNEY
      else if hour \<ge> 0 \<and> hour < 9 then TOKYO
      else if hour \<ge> 8 \<and> hour < 17 then LONDON
      else if hour \<ge> 13 \<and> hour < 22 then NEW_YORK
      else OVERLAP)"

text \<open>
  The setup object as \<^verbatim>\<open>generateAISetup\<close> leaves it (\<^verbatim>\<open>smcData\<close> is \<^verbatim>\<open>null\<close> at the only
  call, in \<^verbatim>\<open>scanForSignals\<close>).
\<close>

definition new_setup ::
  "engine \<Rightarrow> int \<Rightarrow> nat \<Rightarrow> asset \<Rightarrow> real \<Rightarrow> int \<Rightarrow> real \<Rightarrow> position_setup" where
  "new_setup st now hour a p conf momentum =
     (let d = (if momentum > 0 then BULLISH else BEARISH);
          lv = calculateSetupLevels a p d (RISK_CONFIGS (riskMode st))
      in \<lparr>entry_min = lv_min lv, entry_max = lv_max lv, stop = lv_stop lv,
          t1 = lv_t1 lv, t2 = lv_t2 lv, entryPrice = p, originalStop = None,
          confidence = conf, direction = d, timestamp = now, status = ''ACTIVE'',
          reachedTarget1 = False, reachedTarget2 = False,
          setup_marketCondition = marketCondition st,
          setup_volatilityLevel = volatilityLevel st,
          setup_sessionActive = getCurrentSession hour, recorded = False\<rparr>)"

text \<open>\<^verbatim>\<open>generateAISetup(asset, price, confidence, momentum)\<close>\<close>

definition generateAISetup :: "engine \<Rightarrow> int \<Rightarrow> nat \<Rightarrow> asset \<Rightarrow> real \<Rightarrow> int \<Rightarrow> real \<Rightarrow> engine" where
  "generateAISetup st now hour a p conf momentum =
     st\<lparr>activeTrades := (activeTrades st)(a := Some (new_setup st now hour a p conf momentum))\<rparr>"

section \<open>Signal scanning\<close>

text \<open>
  The confidence computed in \<^verbatim>\<open>scanForSignals\<close>; \<open>r\<close> is the value of \<^verbatim>\<open>Math.random()\<close>.
\<close>

definition signal_confidence :: "engine \<Rightarrow> real \<Rightarrow> real \<Rightarrow> int" where
  "signal_confidence st momentum r =
     (let c0 = 8 + \<lfloor>r * 8\<rfloor>;
          c1 = (if marketCondition st = TRENDING_UP \<and> momentum > 0 then c0 + 2 else c0);
          c2 = (if marketCondition st = TRENDING_DOWN \<and> momentum < 0 then c1 + 2 else c1)
      in if volatilityLevel st = HIGH \<or> volatilityLevel st = EXTREME then c2 + 3 else c2)"

text \<open>
  \<^verbatim>\<open>scanForSignals(asset, currentPrice)\<close>. \<open>rm\<close> is the random number read by
  \<^verbatim>\<open>calculateMomentum\<close>, \<open>rc\<close> the one read for the confidence; \<open>now\<close> is \<^verbatim>\<open>Date.now()\<close>.
\<close>

definition scanForSignals ::
  "engine \<Rightarrow> int \<Rightarrow> nat \<Rightarrow> asset \<Rightarrow> real \<Rightarrow> real \<Rightarrow> real \<Rightarrow> engine" where
  "scanForSignals st now hour a currentPrice rm rc =
     (if now - lastSignalTime st a < 60000 then st
      else if activeTrades st a \<noteq> None then st
      else
        let momentum = calculateMomentum (priceHistory st a) rm;
            config = RISK_CONFIGS (riskMode st);
            conf = signal_confidence st momentum rc
        in if conf \<ge> minConfidence config then
             (generateAISetup st now hour a currentPrice conf momentum)
               \<lparr>lastSignalTime := (lastSignalTime st)(a := now)\<rparr>
           else st)"

section \<open>Trade exit monitoring\<close>

text \<open>
  What one call of \<^verbatim>\<open>updateTradeStatus\<close> did, as its log line tells: nothing, the move
  of the stop to breakeven, or a close handed to \<^verbatim>\<open>recordTradeOutcome\<close> with an outcome
  and a profit.
\<close>

datatype exit_event = NoExit | Target1Hit | Closed outcome real

text \<open>
  \<^verbatim>\<open>(trade.entry?.min + trade.entry?.max) / 2 || trade.entryPrice\<close>: the midpoint of the
  entry band, the entry price when the midpoint is 0.
\<close>

definition entryAvg :: "position_setup \<Rightarrow> real" where
  "entryAvg s =
     (let m = (entry_min s + entry_max s) / 2 in if m = 0 then entryPrice s else m)"

text \<open>\<^verbatim>\<open>trade.originalStop || trade.stop\<close>\<close>

definition stop_loss_level :: "position_setup \<Rightarrow> real" where
  "stop_loss_level s =
     (case originalStop s of None \<Rightarrow> stop s | Some x \<Rightarrow> if x = 0 then stop s else x)"

text \<open>The close of a position: \<^verbatim>\<open>recordTradeOutcome\<close>, then both active slots set to \<^verbatim>\<open>null\<close>.\<close>

definition close_trade ::
  "engine \<Rightarrow> int \<Rightarrow> asset \<Rightarrow> position_setup \<Rightarrow> outcome \<Rightarrow> real \<Rightarrow> engine \<times> exit_event" where
  "close_trade st now a s oc profit =
     (let st' = fst (recordTradeOutcome st now a s oc profit)
      in (st'\<lparr>activeTrades := (activeTrades st')(a := None)\<rparr>, Closed oc profit))"

text \<open>\<^verbatim>\<open>updateTradeStatus(asset)\<close>\<close>

definition updateTradeStatus :: "engine \<Rightarrow> int \<Rightarrow> asset \<Rightarrow> engine \<times> exit_event" where
  "updateTradeStatus st now a =
     (case activeTrades st a of
        None \<Rightarrow> (st, NoExit)
      | Some s \<Rightarrow>
          let currentPrice = currentPrices st a
          in if currentPrice = 0 \<or> currentPrice \<le> 0 then (st, NoExit)
             else if \<not> reachedTarget1 s \<and>
                     ((direction s = BULLISH \<and> currentPrice \<ge> t1 s) \<or>
                      (direction s = BEARISH \<and> currentPrice \<le> t1 s)) then
               (st\<lparr>activeTrades := (activeTrades st)
                      (a := Some (s\<lparr>reachedTarget1 := True,
                                     originalStop := Some (stop s),
                                     stop := entryAvg s\<rparr>))\<rparr>, Target1Hit)
             else if reachedTarget1 s \<and> \<not> reachedTarget2 s \<and>
                     ((direction s = BULLISH \<and> currentPrice \<ge> t2 s) \<or>
                      (direction s = BEARISH \<and> currentPrice \<le> t2 s)) then
               close_trade st now a s ''WIN'' \<bar>t2 s - entryAvg s\<bar>
             else if reachedTarget1 s \<and> \<not> reachedTarget2 s \<and>
                     ((direction s = BULLISH \<and> currentPrice \<le> stop s) \<or>
                      (direction s = BEARISH \<and> currentPrice \<ge> stop s)) then
               close_trade st now a s ''BREAKEVEN'' 0
             else if \<not> reachedTarget1 s \<and>
                     ((direction s = BULLISH \<and> currentPrice \<le> stop_loss_level s) \<or>
                      (direction s = BEARISH \<and> currentPrice \<ge> stop_loss_level s)) then
               close_trade st now a s ''LOSS'' \<bar>currentPrice - entryAvg s\<bar>
             else (st, NoExit))"

section \<open>The stored blob, the exit engine and the API server\<close>

text \<open>
  \<^verbatim>\<open>activeTrades[asset]\<close> in the stored blob is either the setup object itself (as the
  trading engine writes it) or an object with a \<^verbatim>\<open>setup\<close> property; the exit engine
  reads both (\<^verbatim>\<open>trade.setup || trade\<close>).
\<close>

datatype active_trade = Direct position_setup | Wrapped position_setup

fun setup_of :: "active_trade \<Rightarrow> position_setup" where
  "setup_of (Direct s) = s"
| "setup_of (Wrapped s) = s"

fun with_setup :: "active_trade \<Rightarrow> position_setup \<Rightarrow> active_trade" where
  "with_setup (Direct _) s = Direct s"
| "with_setup (Wrapped _) s = Wrapped s"

text \<open>\<^verbatim>\<open>TradeDatabase.data\<close> of the exit engine, and the file the API server reads and writes.\<close>

record store =
  st_trades :: "trade list"
  st_activeTrades :: "asset \<Rightarrow> active_trade option"
  st_performance :: performance

text \<open>
  \<^verbatim>\<open>xs.find(P)\<close> followed by assignments to the element found: the first element that
  satisfies \<open>P\<close> is replaced; \<open>None\<close> when there is none.
\<close>

fun update_first :: "('a \<Rightarrow> bool) \<Rightarrow> ('a \<Rightarrow> 'a) \<Rightarrow> 'a list \<Rightarrow> 'a list option" where
  "update_first P f [] = None"
| "update_first P f (x # xs) =
     (if P x then Some (f x # xs) else map_option ((#) x) (update_first P f xs))"

text \<open>
  The predicate of the \<^verbatim>\<open>find\<close>, the same in the exit engine and in the API server: an
  open record (no outcome) of the asset with the timestamp of the setup.
\<close>

definition open_record_of :: "asset \<Rightarrow> position_setup \<Rightarrow> trade \<Rightarrow> bool" where
  "open_record_of a s t =
     (trade_asset t = a \<and> timestamp (trade_setup t) = timestamp s \<and> trade_outcome t = [])"

text \<open>\<^verbatim>\<open>trades.reduce((sum, t) => sum + (t.profit || 0), 0)\<close>\<close>

definition total_profit_of :: "trade list \<Rightarrow> real" where
  "total_profit_of ts = foldl (\<lambda>sum t. sum + trade_profit t) 0 ts"

text \<open>The update of the performance metrics in \<^verbatim>\<open>TradeDatabase.recordTradeOutcome\<close>.\<close>

definition exit_update_performance :: "performance \<Rightarrow> trade list \<Rightarrow> outcome \<Rightarrow> performance" where
  "exit_update_performance perf ts oc =
     (let p1 = perf\<lparr>totalTrades := int (length ts)\<rparr>;
          p2 = (if oc = ''WIN'' then
                  let w = winners p1 + 1
                  in p1\<lparr>winners := w,
                        avgWin := (if w > 0 then total_abs_profit ''WIN'' ts / real_of_int w else 0)\<rparr>
                else if oc = ''LOSS'' then
                  let l = losers p1 + 1
                  in p1\<lparr>losers := l,
                        avgLoss := (if l > 0 then total_abs_profit ''LOSS'' ts / real_of_int l else 0)\<rparr>
                else if oc = ''BREAKEVEN'' then
                  p1\<lparr>breakevenTrades := breakevenTrades p1 + 1\<rparr>
                else p1);
          p3 = p2\<lparr>winRate := (if totalTrades p2 > 0
                               then real_of_int (winners p2) / real_of_int (totalTrades p2) * 100
                               else 0)\<rparr>;
          totalWins = total_abs_profit ''WIN'' ts;
          totalLosses = total_abs_profit ''LOSS'' ts;
          p4 = p3\<lparr>profitFactor := (if totalLosses > 0 then Fin (totalWins / totalLosses)
                                    else if totalWins > 0 then Fin 999 else Fin 0)\<rparr>;
          p5 = p4\<lparr>breakevenRate := (if totalTrades p4 > 0
                                     then real_of_int (breakevenTrades p4) / real_of_int (totalTrades p4) * 100
                                     else 0)\<rparr>
      in p5\<lparr>totalProfit := total_profit_of ts\<rparr>)"

text \<open>
  \<^verbatim>\<open>TradeDatabase.recordTradeOutcome(asset, trade, outcome, profit, exitPrice)\<close> of the
  exit engine, on the setup of \<^verbatim>\<open>trade\<close>. \<open>profit\<close> is not used by the code. This
  recorder does not sanitise the P&L; a \<^verbatim>\<open>NaN\<close> or infinite profit is stored here as 0,
  which is what every later read (\<^verbatim>\<open>t.profit || 0\<close>, and \<^verbatim>\<open>null\<close> after the JSON round
  trip) takes it for.
\<close>

definition TradeDatabase_recordTradeOutcome ::
  "store \<Rightarrow> int \<Rightarrow> asset \<Rightarrow> position_setup \<Rightarrow> outcome \<Rightarrow> real \<Rightarrow> real \<Rightarrow> store" where
  "TradeDatabase_recordTradeOutcome db now a s oc profit exitP =
     (let realizedPnL = sanitize (calculatePnL 10 s oc);
          ts = (case update_first (open_record_of a s)
                       (\<lambda>t. t\<lparr>trade_outcome := oc, trade_profit := realizedPnL,
                               exitPrice := Some exitP, exitTime := Some now,
                               closedBy := ''AUTONOMOUS_EXIT_ENGINE''\<rparr>) (st_trades db) of
                  Some ts' \<Rightarrow> ts'
                | None \<Rightarrow> st_trades db @
                    [\<lparr>trade_asset = a, trade_setup = s, trade_outcome = oc,
                      trade_profit = realizedPnL, trade_timestamp = timestamp s,
                      trade_marketCondition = Some (setup_marketCondition s),
                      trade_volatilityLevel = Some (setup_volatilityLevel s),
                      trade_sessionActive = Some (setup_sessionActive s),
                      exitPrice = Some exitP, exitTime = Some now,
                      closedBy = ''AUTONOMOUS_EXIT_ENGINE''\<rparr>])
      in db\<lparr>st_trades := ts,
             st_performance := exit_update_performance (st_performance db) ts oc\<rparr>)"

text \<open>\<^verbatim>\<open>TradeDatabase.clearActiveTrade\<close>\<close>

definition clearActiveTrade :: "store \<Rightarrow> asset \<Rightarrow> store" where
  "clearActiveTrade db a = db\<lparr>st_activeTrades := (st_activeTrades db)(a := None)\<rparr>"

text \<open>
  The body of the loop of \<^verbatim>\<open>ExitEngine.checkTradeExits\<close> for one asset; \<open>currentPrice\<close>
  is \<^verbatim>\<open>prices[asset]\<close>. Here the midpoint of the entry band has no fallback.
\<close>

definition checkTradeExit :: "store \<Rightarrow> int \<Rightarrow> asset \<Rightarrow> real \<Rightarrow> store \<times> exit_event" where
  "checkTradeExit db now a currentPrice =
     (case st_activeTrades db a of
        None \<Rightarrow> (db, NoExit)
      | Some tr \<Rightarrow>
          let s = setup_of tr;
              mid = (entry_min s + entry_max s) / 2
          in if entryPrice s = 0 then (db, NoExit)
             else if currentPrice = 0 \<or> currentPrice \<le> 0 then (db, NoExit)
             else if \<not> reachedTarget1 s \<and>
                     (if direction s = BULLISH then currentPrice \<ge> t1 s else currentPrice \<le> t1 s) then
               (db\<lparr>st_activeTrades := (st_activeTrades db)
                      (a := Some (with_setup tr (s\<lparr>reachedTarget1 := True,
                                                    originalStop := Some (stop s),
                                                    stop := mid\<rparr>)))\<rparr>, Target1Hit)
             else if reachedTarget1 s \<and> \<not> reachedTarget2 s \<and>
                     (if direction s = BULLISH then currentPrice \<ge> t2 s else currentPrice \<le> t2 s) then
               (clearActiveTrade
                  (TradeDatabase_recordTradeOutcome db now a s ''WIN'' \<bar>t2 s - mid\<bar> currentPrice) a,
                Closed ''WIN'' \<bar>t2 s - mid\<bar>)
             else if reachedTarget1 s \<and> \<not> reachedTarget2 s \<and>
                     (if direction s = BULLISH then currentPrice \<le> stop s else currentPrice \<ge> stop s) then
               (clearActiveTrade
                  (TradeDatabase_recordTradeOutcome db now a s ''BREAKEVEN'' 0 currentPrice) a,
                Closed ''BREAKEVEN'' 0)
             else if \<not> reachedTarget1 s \<and>
                     (if direction s = BULLISH then currentPrice \<le> stop_loss_level s
                      else currentPrice \<ge> stop_loss_level s) then
               (clearActiveTrade
                  (TradeDatabase_recordTradeOutcome db now a s ''LOSS'' \<bar>currentPrice - mid\<bar> currentPrice) a,
                Closed ''LOSS'' \<bar>currentPrice - mid\<bar>)
             else (db, NoExit))"

subsection \<open>The manual close of the API server\<close>

text \<open>\<^verbatim>\<open>String.prototype.toLowerCase\<close> on ASCII.\<close>

definition lower_char :: "char \<Rightarrow> char" where
  "lower_char c =
     (let n = (of_char c :: nat) in if 65 \<le> n \<and> n \<le> 90 then char_of (n + 32) else c)"

definition toLowerCase :: "string \<Rightarrow> string" where
  "toLowerCase s = map lower_char s"

text \<open>
  The body of a \<^verbatim>\<open>POST /api/trades/close\<close> request; an absent \<^verbatim>\<open>asset\<close> or \<^verbatim>\<open>outcome\<close> is
  the empty string, an absent \<^verbatim>\<open>profit\<close> or \<^verbatim>\<open>exitPrice\<close> is \<open>None\<close>.
\<close>

record close_request =
  rq_asset :: string
  rq_outcome :: outcome
  rq_profit :: "real option"
  rq_exitPrice :: "real option"

datatype http_error = BadRequest | NotFound

text \<open>
  The handler of \<^verbatim>\<open>POST /api/trades/close\<close> on the loaded data; the result on the right
  is the data it saves.
\<close>

definition manual_close :: "store \<Rightarrow> int \<Rightarrow> close_request \<Rightarrow> http_error + store" where
  "manual_close db now rq =
     (if rq_asset rq = [] \<or> rq_outcome rq = [] \<or> rq_exitPrice rq = None \<or> rq_exitPrice rq = Some 0
      then Inl BadRequest
      else
        let a = toLowerCase (rq_asset rq) in
        case st_activeTrades db a of
          None \<Rightarrow> Inl NotFound
        | Some (Direct _) \<Rightarrow> Inl NotFound
        | Some (Wrapped s) \<Rightarrow>
            let calculatedProfit = (case rq_profit rq of Some x \<Rightarrow> x | None \<Rightarrow> 0);
                oc = rq_outcome rq;
                ts = (case update_first (open_record_of a s)
                             (\<lambda>t. t\<lparr>trade_outcome := oc, trade_profit := calculatedProfit,
                                     exitPrice := rq_exitPrice rq, exitTime := Some now,
                                     closedBy := ''MANUAL_API''\<rparr>) (st_trades db) of
                        Some ts' \<Rightarrow> ts'
                      | None \<Rightarrow> st_trades db @
                          [\<lparr>trade_asset = a, trade_setup = s, trade_outcome = oc,
                            trade_profit = calculatedProfit, trade_timestamp = timestamp s,
                            trade_marketCondition = None, trade_volatilityLevel = None,
                            trade_sessionActive = None,
                            exitPrice = rq_exitPrice rq, exitTime = Some now,
                            closedBy = ''MANUAL_API''\<rparr>]);
                p1 = (st_performance db)\<lparr>totalTrades := int (length ts)\<rparr>;
                p2 = (if oc = ''WIN'' then p1\<lparr>winners := winners p1 + 1\<rparr>
                      else if oc = ''LOSS'' then p1\<lparr>losers := losers p1 + 1\<rparr>
                      else if oc = ''BREAKEVEN'' then p1\<lparr>breakevenTrades := breakevenTrades p1 + 1\<rparr>
                      else p1)
            in Inr (db\<lparr>st_trades := ts, st_activeTrades := (st_activeTrades db)(a := None),
                       st_performance := p2\<rparr>))"

section \<open>Properties named by the specification, and concrete inputs\<close>

text \<open>The arithmetic mean of a list of numbers.\<close>

definition mean_of :: "real list \<Rightarrow> real" where
  "mean_of xs = sum_list xs / real (length xs)"

text \<open>
  The momentum in the words of the specification: the average of the last 3 \<^verbatim>\<open>pctChange\<close>
  values, clamped to \<open>[-2, 2]\<close>.
\<close>

definition spec_momentum :: "sample list \<Rightarrow> real" where
  "spec_momentum history = max (-2) (min 2 (mean_of (map change (slice_last 3 history))))"

text \<open>
  The admission decision of one call of \<^verbatim>\<open>scanForSignals\<close>: the slot of the asset was
  empty and holds a position afterwards.
\<close>

definition admits :: "engine \<Rightarrow> int \<Rightarrow> nat \<Rightarrow> asset \<Rightarrow> real \<Rightarrow> real \<Rightarrow> real \<Rightarrow> bool" where
  "admits st now hour a p rm rc =
     (activeTrades st a = None \<and> activeTrades (scanForSignals st now hour a p rm rc) a \<noteq> None)"

text \<open>Three samples, each with a change of one percent.\<close>

definition flat_history :: "sample list" where
  "flat_history =
     [\<lparr>price = 100, change = 1, time = 1\<rparr>,
      \<lparr>price = 100, change = 1, time = 2\<rparr>,
      \<lparr>price = 100, change = 1, time = 3\<rparr>]"

text \<open>The fresh engine in a falling market of extreme volatility.\<close>

definition stormy_engine :: engine where
  "stormy_engine = initial_engine\<lparr>marketCondition := TRENDING_DOWN, volatilityLevel := EXTREME\<rparr>"

text \<open>
  The aggregates in the words of the specification: every field computed from the list
  of trade records alone.
\<close>

definition count_outcome :: "outcome \<Rightarrow> trade list \<Rightarrow> int" where
  "count_outcome oc ts = int (length (filter (\<lambda>t. trade_outcome t = oc) ts))"

definition recompute_performance :: "trade list \<Rightarrow> performance" where
  "recompute_performance ts =
     (let n = int (length ts);
          w = count_outcome ''WIN'' ts;
          l = count_outcome ''LOSS'' ts;
          b = count_outcome ''BREAKEVEN'' ts;
          totalWinAmount = total_abs_profit ''WIN'' ts;
          totalLossAmount = total_abs_profit ''LOSS'' ts
      in \<lparr>totalTrades = n, winners = w, losers = l, breakevenTrades = b,
          totalProfit = total_profit_of ts,
          winRate = (if n > 0 then real_of_int w / real_of_int n * 100 else 0),
          profitFactor = (if totalLossAmount > 0 then Fin (totalWinAmount / totalLossAmount)
                          else if totalWinAmount > 0 then PosInf else Fin 0),
          avgWin = (if w > 0 then totalWinAmount / real_of_int w else 0),
          avgLoss = (if l > 0 then totalLossAmount / real_of_int l else 0),
          breakevenRate = (if n > 0 then real_of_int b / real_of_int n * 100 else 0)\<rparr>)"

text \<open>Five samples of btc rising from 100 to 103, and five quiet samples of eth.\<close>

definition rising_history :: "sample list" where
  "rising_history =
     [\<lparr>price = 100, change = 1, time = 1\<rparr>,
      \<lparr>price = 101, change = 2, time = 2\<rparr>,
      \<lparr>price = 102, change = 3, time = 3\<rparr>,
      \<lparr>price = 102, change = 3, time = 4\<rparr>,
      \<lparr>price = 103, change = 3, time = 5\<rparr>]"

definition calm_history :: "sample list" where
  "calm_history =
     [\<lparr>price = 50, change = 0.1, time = 1\<rparr>,
      \<lparr>price = 50, change = 0.1, time = 2\<rparr>,
      \<lparr>price = 50, change = 0.1, time = 3\<rparr>,
      \<lparr>price = 50, change = 0.1, time = 4\<rparr>,
      \<lparr>price = 50, change = 0.1, time = 5\<rparr>]"

definition two_asset_engine :: engine where
  "two_asset_engine =
     initial_engine
       \<lparr>priceHistory := (\<lambda>_. [])(''btc'' := rising_history, ''eth'' := calm_history),
        currentPrices := (\<lambda>_. 0)(''btc'' := 103, ''eth'' := 50)\<rparr>"

text \<open>
  A long position on btc opened at 100 under the conservative preset, and a second one
  opened later at 100.3.
\<close>

definition demo_setup :: position_setup where
  "demo_setup = new_setup initial_engine 1000 12 ''btc'' 100 8 1"

definition later_setup :: position_setup where
  "later_setup = new_setup initial_engine 900000 14 ''btc'' 100.3 9 1"

text \<open>The first position after its first target: the stop is at breakeven.\<close>

definition armed_setup :: position_setup where
  "armed_setup = demo_setup\<lparr>reachedTarget1 := True, originalStop := Some 99.5, stop := 100\<rparr>"

text \<open>A breakeven-armed long position whose stop sits at its second target.\<close>

definition degenerate_setup :: position_setup where
  "degenerate_setup = demo_setup\<lparr>reachedTarget1 := True, originalStop := Some 99.5, stop := 101.25\<rparr>"

definition degenerate_engine :: engine where
  "degenerate_engine =
     initial_engine\<lparr>activeTrades := (\<lambda>_. None)(''btc'' := Some degenerate_setup),
                    currentPrices := (\<lambda>_. 0)(''btc'' := 101.25)\<rparr>"

definition degenerate_store :: store where
  "degenerate_store =
     \<lparr>st_trades = [], st_activeTrades = (\<lambda>_. None)(''btc'' := Some (Direct degenerate_setup)),
      st_performance = initial_performance\<rparr>"

definition empty_store :: store where
  "empty_store = \<lparr>st_trades = [], st_activeTrades = (\<lambda>_. None), st_performance = initial_performance\<rparr>"

text \<open>
  The run of the end-to-end example: the price is 100 and the position is opened; then
  the feed delivers 100, 100.8 and 101.3, each followed by a call of
  \<^verbatim>\<open>updateTradeStatus\<close>.
\<close>

definition run_start :: engine where
  "run_start = generateAISetup (updatePrice initial_engine 1000 ''btc'' 100 0) 1000 12 ''btc'' 100 8 1"

definition tick :: "engine \<Rightarrow> int \<Rightarrow> real \<Rightarrow> engine \<times> exit_event" where
  "tick st now p = updateTradeStatus (updatePrice st now ''btc'' p 0) now ''btc''"

definition run_1 :: engine where
  "run_1 = fst (tick run_start 2000 100)"

definition run_2 :: engine where
  "run_2 = fst (tick run_1 3000 100.8)"

definition run_3 :: engine where
  "run_3 = fst (tick run_2 4000 101.3)"

text \<open>The fresh engine after recording a loss, and after recording a breakeven close.\<close>

definition after_loss :: engine where
  "after_loss = fst (recordTradeOutcome initial_engine 1000 ''btc'' demo_setup ''LOSS'' 0.5)"

definition after_breakeven :: engine where
  "after_breakeven = fst (recordTradeOutcome initial_engine 1000 ''btc'' armed_setup ''BREAKEVEN'' 0)"

text \<open>
  A stored blob whose btc slot holds the armed position under a \<^verbatim>\<open>setup\<close> property, a
  manual close request for it, and the blob the exit engine would leave on the same
  close.
\<close>

definition wrapped_store :: store where
  "wrapped_store =
     \<lparr>st_trades = [], st_activeTrades = (\<lambda>_. None)(''btc'' := Some (Wrapped armed_setup)),
      st_performance = initial_performance\<rparr>"

definition win_request :: close_request where
  "win_request = \<lparr>rq_asset = ''BTC'', rq_outcome = ''WIN'', rq_profit = Some 5, rq_exitPrice = Some 101.3\<rparr>"

definition automatic_close :: store where
  "automatic_close =
     clearActiveTrade (TradeDatabase_recordTradeOutcome wrapped_store 5000 ''btc'' armed_setup ''WIN'' 5 101.3) ''btc''"

text \<open>
  The trade list that \<^verbatim>\<open>POST /api/trades/close\<close> saves: the open record of the position
  completed, or a new record appended.
\<close>

definition manual_trades :: "store \<Rightarrow> int \<Rightarrow> close_request \<Rightarrow> asset \<Rightarrow> position_setup \<Rightarrow> trade list" where
  "manual_trades db now rq a s =
     (case update_first (open_record_of a s)
             (\<lambda>t. t\<lparr>trade_outcome := rq_outcome rq,
                     trade_profit := (case rq_profit rq of Some x \<Rightarrow> x | None \<Rightarrow> 0),
                     exitPrice := rq_exitPrice rq, exitTime := Some now,
                     closedBy := ''MANUAL_API''\<rparr>) (st_trades db) of
        Some ts' \<Rightarrow> ts'
      | None \<Rightarrow> st_trades db @
          [\<lparr>trade_asset = a, trade_setup = s, trade_outcome = rq_outcome rq,
            trade_profit = (case rq_profit rq of Some x \<Rightarrow> x | None \<Rightarrow> 0),
            trade_timestamp = timestamp s,
            trade_marketCondition = None, trade_volatilityLevel = None,
            trade_sessionActive = None,
            exitPrice = rq_exitPrice rq, exitTime = Some now,
            closedBy = ''MANUAL_API''\<rparr>])"

text \<open>
  The aggregates that the recorder of the trading engine writes agree with the values
  recomputed from the trade list: all fields but \<^verbatim>\<open>totalProfit\<close> and \<^verbatim>\<open>breakevenRate\<close>.
\<close>

definition agrees_on_maintained :: "performance \<Rightarrow> trade list \<Rightarrow> bool" where
  "agrees_on_maintained perf ts =
     (totalTrades perf = totalTrades (recompute_performance ts)
      \<and> winners perf = winners (recompute_performance ts)
      \<and> losers perf = losers (recompute_performance ts)
      \<and> breakevenTrades perf = breakevenTrades (recompute_performance ts)
      \<and> winRate perf = winRate (recompute_performance ts)
      \<and> profitFactor perf = profitFactor (recompute_performance ts)
      \<and> avgWin perf = avgWin (recompute_performance ts)
      \<and> avgLoss perf = avgLoss (recompute_performance ts))"

text \<open>
  The blob of \<open>wrapped_store\<close> with the open record of the position already in the trade
  list, as older clients wrote it at entry.
\<close>

definition open_record_store :: store where
  "open_record_store =
     wrapped_store\<lparr>st_trades :=
       [\<lparr>trade_asset = ''btc'', trade_setup = demo_setup, trade_outcome = [],
         trade_profit = 0, trade_timestamp = 1000,
         trade_marketCondition = Some RANGING, trade_volatilityLevel = Some NORMAL,
         trade_sessionActive = Some LONDON,
         exitPrice = None, exitTime = None, closedBy = []\<rparr>]\<rparr>"

text \<open>
  The WIN close of the end-to-end run inside \<^verbatim>\<open>recordTradeOutcome\<close> of the trading
  engine, and the blob that its \<^verbatim>\<open>saveToVPS\<close> pushes at the end of that function: the
  record is appended and the setup is flagged as recorded, but \<^verbatim>\<open>updateTradeStatus\<close> has not
  yet cleared the slot.
\<close>

definition win_recorded :: "engine \<times> position_setup" where
  "win_recorded = recordTradeOutcome run_2 4000 ''btc'' armed_setup ''WIN'' 1.25"

definition mid_close_blob :: store where
  "mid_close_blob =
     \<lparr>st_trades = trades (fst win_recorded),
      st_activeTrades = (\<lambda>_. None)(''btc'' := Some (Direct (snd win_recorded))),
      st_performance = performance (fst win_recorded)\<rparr>"

section \<open>Momentum\<close>

lemma foldl_add_sum_list:
  "foldl (\<lambda>sum p. sum + f p) a xs = a + sum_list (map f xs)"
  for a :: real
  by (induction xs arbitrary: a) simp_all

lemma length_slice_last: "n \<le> length xs \<Longrightarrow> length (slice_last n xs) = n"
  by (simp add: slice_last_def)

text \<open>
  C6, as the code has it: with at least three samples, \<^verbatim>\<open>calculateMomentum\<close> returns
  half of the arithmetic mean of the last three changes, clamped to \<open>[-2, 2]\<close>.
\<close>

theorem momentum_half_mean:
  assumes "length history \<ge> 3"
  shows "calculateMomentum history r
         = max (-2) (min 2 (mean_of (map change (slice_last 3 history)) / 2))"
  using assms
  by (simp add: calculateMomentum_def Let_def foldl_add_sum_list mean_of_def length_slice_last)

theorem momentum_half_mean_witness:
  "length flat_history \<ge> 3 \<and> calculateMomentum flat_history 0 = 1 / 2"
  using momentum_half_mean [of flat_history 0]
  by (simp add: flat_history_def slice_last_def mean_of_def)

text \<open>
  C6 as the specification states it fails: on three changes of 1 the clamped mean is 1,
  and the code returns 1/2.
\<close>

theorem momentum_mean_counterexample:
  "calculateMomentum flat_history 0 = 1 / 2 \<and> spec_momentum flat_history = 1"
  by (simp add: calculateMomentum_def spec_momentum_def flat_history_def slice_last_def mean_of_def)

section \<open>Admission\<close>

lemma signal_confidence_ge_8: "0 \<le> r \<Longrightarrow> 8 \<le> signal_confidence st m r"
  by (simp add: signal_confidence_def Let_def)

lemma minConfidence_le_8: "minConfidence (RISK_CONFIGS m) \<le> 8"
  by (cases m) simp_all

lemma scanForSignals_admits:
  assumes "activeTrades st a = None" and "now - lastSignalTime st a \<ge> 60000" and "0 \<le> rc"
  shows "scanForSignals st now hour a p rm rc =
           (generateAISetup st now hour a p
              (signal_confidence st (calculateMomentum (priceHistory st a) rm) rc)
              (calculateMomentum (priceHistory st a) rm))
             \<lparr>lastSignalTime := (lastSignalTime st)(a := now)\<rparr>"
proof -
  have "minConfidence (RISK_CONFIGS (riskMode st))
          \<le> signal_confidence st (calculateMomentum (priceHistory st a) rm) rc"
    using signal_confidence_ge_8 [OF assms(3)] minConfidence_le_8 order_trans by blast
  with assms(1,2) show ?thesis
    by (simp add: scanForSignals_def Let_def)
qed

text \<open>
  C2, as the code has it: with fewer than three samples \<^verbatim>\<open>calculateMomentum\<close> returns 1
  when the random number exceeds 0.5 and -1 otherwise, and \<^verbatim>\<open>scanForSignals\<close> (empty
  slot, cooldown over, random number for the confidence not negative) admits a position
  at the current price whose direction follows that random choice.
\<close>

theorem insufficient_history_random_admission:
  assumes "length (priceHistory st a) < 3"
    and "activeTrades st a = None" and "now - lastSignalTime st a \<ge> 60000" and "0 \<le> rc"
  shows "calculateMomentum (priceHistory st a) rm = (if rm > 0.5 then 1 else -1)
       \<and> (\<exists>s. activeTrades (scanForSignals st now hour a p rm rc) a = Some s
              \<and> direction s = (if rm > 0.5 then BULLISH else BEARISH)
              \<and> entryPrice s = p)"
proof -
  have m: "calculateMomentum (priceHistory st a) rm = (if rm > 0.5 then 1 else -1)"
    using assms(1) by (simp add: calculateMomentum_def)
  show ?thesis
    unfolding scanForSignals_admits [OF assms(2,3,4)] m
    by (simp add: generateAISetup_def new_setup_def Let_def)
qed

theorem insufficient_history_random_admission_witness:
  "length (priceHistory initial_engine ''btc'') < 3
   \<and> activeTrades initial_engine ''btc'' = None
   \<and> (60000::int) - lastSignalTime initial_engine ''btc'' \<ge> 60000 \<and> (0::real) \<le> 0
   \<and> (\<exists>s. activeTrades (scanForSignals initial_engine 60000 12 ''btc'' 100 0.7 0) ''btc'' = Some s
          \<and> direction s = BULLISH)"
proof -
  have h1: "length (priceHistory initial_engine ''btc'') < 3"
    and h2: "activeTrades initial_engine ''btc'' = None"
    and h3: "(60000::int) - lastSignalTime initial_engine ''btc'' \<ge> 60000"
    and h4: "(0::real) \<le> 0"
    by (simp_all add: initial_engine_def)
  from insufficient_history_random_admission
         [OF h1 h2 h3 h4, where hour = 12 and p = 100 and rm = "0.7"]
  have "\<exists>s. activeTrades (scanForSignals initial_engine 60000 12 ''btc'' 100 0.7 0) ''btc'' = Some s
          \<and> direction s = BULLISH"
    by auto
  with h1 h2 h3 h4 show ?thesis by blast
qed

text \<open>
  C2 as the specification states it fails: the fresh engine has no sample of btc, and a
  scan admits a position; the momentum is 1 or -1 by the random number alone.
\<close>

theorem insufficient_history_counterexample:
  "length (priceHistory initial_engine ''btc'') < 3
   \<and> activeTrades initial_engine ''btc'' = None
   \<and> activeTrades (scanForSignals initial_engine 60000 12 ''btc'' 100 0.7 0) ''btc'' \<noteq> None
   \<and> calculateMomentum (priceHistory initial_engine ''btc'') 0.7 = 1
   \<and> calculateMomentum (priceHistory initial_engine ''btc'') 0.2 = -1"
  by (simp add: initial_engine_def scanForSignals_def calculateMomentum_def Let_def
      signal_confidence_def generateAISetup_def)

text \<open>
  C8: in the conservative mode, a scan of an asset with an empty slot and the cooldown
  over always admits a position. The base confidence \<open>8 + \<lfloor>r * 8\<rfloor>\<close> lies between 8 and
  15 for a random number \<open>r\<close> in \<open>[0, 1)\<close>, the confidence reaches the minimum of the
  preset, and any two runs decide alike, whatever their random numbers, regimes,
  volatility levels, histories and prices.
\<close>

theorem conservative_always_admits:
  assumes "riskMode st = conservative" and "riskMode st' = conservative"
    and "activeTrades st a = None" and "activeTrades st' a = None"
    and "now - lastSignalTime st a \<ge> 60000" and "now' - lastSignalTime st' a \<ge> 60000"
    and "0 \<le> rc" and "rc < 1" and "0 \<le> rc'" and "rc' < 1"
  shows "8 \<le> 8 + \<lfloor>rc * 8\<rfloor> \<and> 8 + \<lfloor>rc * 8\<rfloor> \<le> (15::int)
       \<and> minConfidence (RISK_CONFIGS (riskMode st))
           \<le> signal_confidence st (calculateMomentum (priceHistory st a) rm) rc
       \<and> admits st now hour a p rm rc
       \<and> admits st now hour a p rm rc = admits st' now' hour' a p' rm' rc'"
proof -
  have fl: "0 \<le> \<lfloor>rc * 8\<rfloor>" "\<lfloor>rc * 8\<rfloor> \<le> 7"
    using assms(7,8) by (simp_all add: floor_le_iff)
  have conf: "minConfidence (RISK_CONFIGS (riskMode st))
           \<le> signal_confidence st (calculateMomentum (priceHistory st a) rm) rc"
    using signal_confidence_ge_8 [OF assms(7)] assms(1) by simp
  have a1: "admits st now hour a p rm rc"
    using assms(3) scanForSignals_admits [OF assms(3,5,7)]
    by (simp add: admits_def generateAISetup_def)
  have a2: "admits st' now' hour' a p' rm' rc'"
    using assms(4) scanForSignals_admits [OF assms(4,6,9)]
    by (simp add: admits_def generateAISetup_def)
  from fl conf a1 a2 show ?thesis by simp
qed

theorem conservative_always_admits_witness:
  "admits initial_engine 60000 12 ''btc'' 100 0.7 0.3
   \<and> admits stormy_engine 70000 3 ''btc'' 200 0.1 0.9"
proof -
  have h: "riskMode initial_engine = conservative" "riskMode stormy_engine = conservative"
    "activeTrades initial_engine ''btc'' = None" "activeTrades stormy_engine ''btc'' = None"
    "(60000::int) - lastSignalTime initial_engine ''btc'' \<ge> 60000"
    "(70000::int) - lastSignalTime stormy_engine ''btc'' \<ge> 60000"
    "(0::real) \<le> 0.3" "(0.3::real) < 1" "(0::real) \<le> 0.9" "(0.9::real) < 1"
    by (simp_all add: initial_engine_def stormy_engine_def)
  from conservative_always_admits
         [OF h, where hour = 12 and p = 100 and rm = "0.7"
                  and hour' = 3 and p' = 200 and rm' = "0.1"]
  show ?thesis by blast
qed

section \<open>Facts about the concrete inputs\<close>

lemma demo_setup_fields:
  "entry_min demo_setup = 99.95" "entry_max demo_setup = 100.05" "stop demo_setup = 99.5"
  "t1 demo_setup = 100.75" "t2 demo_setup = 101.25" "entryPrice demo_setup = 100"
  "originalStop demo_setup = None" "direction demo_setup = BULLISH"
  "reachedTarget1 demo_setup = False" "reachedTarget2 demo_setup = False"
  "recorded demo_setup = False" "timestamp demo_setup = 1000"
  by (simp_all add: demo_setup_def new_setup_def Let_def calculateSetupLevels_def initial_engine_def)

lemma armed_fields:
  "entry_min armed_setup = 99.95" "entry_max armed_setup = 100.05" "stop armed_setup = 100"
  "t1 armed_setup = 100.75" "t2 armed_setup = 101.25" "entryPrice armed_setup = 100"
  "originalStop armed_setup = Some 99.5" "direction armed_setup = BULLISH"
  "reachedTarget1 armed_setup = True" "reachedTarget2 armed_setup = False"
  "recorded armed_setup = False"
  by (simp_all add: armed_setup_def demo_setup_fields)

lemma entryAvg_demo: "entryAvg demo_setup = 100"
  by (simp add: entryAvg_def demo_setup_fields)

lemma entryAvg_armed: "entryAvg armed_setup = 100"
  by (simp add: entryAvg_def armed_fields)

lemma after_loss_facts:
  "map trade_profit (trades after_loss) = [-10]"
  "map trade_outcome (trades after_loss) = [''LOSS'']"
  "totalProfit (performance after_loss) = 0"
  "breakevenRate (performance after_loss) = 0"
  by (simp_all add: after_loss_def recordTradeOutcome_def demo_setup_fields initial_engine_def
      duplicate_exists_def Let_def calculatePnL_def RISK_PER_TRADE_def update_performance_def
      initial_performance_def)

lemma after_breakeven_facts:
  "map trade_profit (trades after_breakeven) = [0]"
  "map trade_outcome (trades after_breakeven) = [''BREAKEVEN'']"
  "breakevenRate (performance after_breakeven) = 0"
  "breakevenTrades (performance after_breakeven) = 1"
  "totalTrades (performance after_breakeven) = 1"
  by (simp_all add: after_breakeven_def recordTradeOutcome_def armed_fields initial_engine_def
      duplicate_exists_def Let_def calculatePnL_def RISK_PER_TRADE_def update_performance_def
      initial_performance_def)

section \<open>The regime\<close>

lemma detectAsset_keeps:
  "priceHistory (detectAsset st a) = priceHistory st"
  "currentPrices (detectAsset st a) = currentPrices st"
  by (simp_all add: detectAsset_def Let_def)

text \<open>
  C9: the regime is one global value. When btc and eth both have at least five
  samples, the market condition and the volatility level stored by
  \<^verbatim>\<open>detectMarketCondition\<close> are the classification of the window and current price of eth
  alone, and a position opened on btc right after carries that regime of eth.
\<close>

theorem regime_is_eth_classification:
  assumes "length (priceHistory st ''btc'') \<ge> 5" and "length (priceHistory st ''eth'') \<ge> 5"
  shows "marketCondition (detectMarketCondition st)
           = classify_trend (slice_last 5 (priceHistory st ''eth'')) (currentPrices st ''eth'')
       \<and> volatilityLevel (detectMarketCondition st)
           = classify_volatility (slice_last 5 (priceHistory st ''eth''))
       \<and> (\<exists>s. activeTrades (generateAISetup (detectMarketCondition st) now hour ''btc'' p conf m) ''btc''
                = Some s
              \<and> setup_marketCondition s
                  = classify_trend (slice_last 5 (priceHistory st ''eth'')) (currentPrices st ''eth'')
              \<and> setup_volatilityLevel s
                  = classify_volatility (slice_last 5 (priceHistory st ''eth'')))"
proof -
  let ?st1 = "detectAsset st ''btc''"
  have d: "detectMarketCondition st = detectAsset ?st1 ''eth''"
    by (simp add: detectMarketCondition_def)
  have len: "length (priceHistory ?st1 ''eth'') \<ge> 5"
    using assms(2) by (simp add: detectAsset_keeps)
  have mc: "marketCondition (detectAsset ?st1 ''eth'')
         = classify_trend (slice_last 5 (priceHistory st ''eth'')) (currentPrices st ''eth'')"
    using len by (simp add: detectAsset_def [of ?st1] Let_def detectAsset_keeps)
  have vl: "volatilityLevel (detectAsset ?st1 ''eth'')
         = classify_volatility (slice_last 5 (priceHistory st ''eth''))"
    using len by (simp add: detectAsset_def [of ?st1] Let_def detectAsset_keeps)
  show ?thesis
    unfolding d using mc vl
    by (simp add: generateAISetup_def new_setup_def Let_def)
qed

theorem regime_is_eth_classification_witness:
  "length (priceHistory two_asset_engine ''btc'') \<ge> 5
   \<and> length (priceHistory two_asset_engine ''eth'') \<ge> 5
   \<and> classify_trend (slice_last 5 (priceHistory two_asset_engine ''btc''))
        (currentPrices two_asset_engine ''btc'') = TRENDING_UP
   \<and> marketCondition (detectMarketCondition two_asset_engine) = RANGING
   \<and> volatilityLevel (detectMarketCondition two_asset_engine) = LOW"
proof -
  have h: "length (priceHistory two_asset_engine ''btc'') \<ge> 5"
    "length (priceHistory two_asset_engine ''eth'') \<ge> 5"
    by (simp_all add: two_asset_engine_def rising_history_def calm_history_def)
  have btc: "classify_trend (slice_last 5 (priceHistory two_asset_engine ''btc''))
        (currentPrices two_asset_engine ''btc'') = TRENDING_UP"
    by (simp add: two_asset_engine_def rising_history_def classify_trend_def slice_last_def)
  have eth: "classify_trend (slice_last 5 (priceHistory two_asset_engine ''eth''))
        (currentPrices two_asset_engine ''eth'') = RANGING"
    "classify_volatility (slice_last 5 (priceHistory two_asset_engine ''eth'')) = LOW"
    by (simp_all add: two_asset_engine_def calm_history_def classify_trend_def
        classify_volatility_def slice_last_def)
  from regime_is_eth_classification [OF h] eth
  have "marketCondition (detectMarketCondition two_asset_engine) = RANGING"
    "volatilityLevel (detectMarketCondition two_asset_engine) = LOW"
    by simp_all
  with h btc show ?thesis by simp
qed

section \<open>Recording\<close>

lemma recordTradeOutcome_noop:
  assumes "oc = [] \<or> oc = ''ACTIVE'' \<or> oc = ''OPEN'' \<or> recorded s
           \<or> (\<exists>t\<in>set (trades st). trade_asset t = a
                  \<and> \<bar>entryPrice (trade_setup t) - entryPrice s\<bar> < 0.5
                  \<and> trade_outcome t = oc)"
  shows "recordTradeOutcome st now a s oc p = (st, s)"
proof (cases "oc = []")
  case True
  then show ?thesis by (simp add: recordTradeOutcome_def)
next
  case False
  with assms have "oc = ''ACTIVE'' \<or> oc = ''OPEN'' \<or> recorded s \<or> duplicate_exists (trades st) a s oc"
    by (auto simp add: duplicate_exists_def list_ex_iff)
  then show ?thesis by (auto simp add: recordTradeOutcome_def)
qed

lemma recordTradeOutcome_cases:
  "recordTradeOutcome st now a s oc p = (st, s)
   \<or> (oc \<noteq> [] \<and> \<not> recorded s \<and> recorded (snd (recordTradeOutcome st now a s oc p)) \<and>
      (\<exists>tr. trades (fst (recordTradeOutcome st now a s oc p)) = trades st @ [tr]
            \<and> trade_asset tr = a \<and> trade_outcome tr = oc
            \<and> entryPrice (trade_setup tr) = entryPrice s))"
proof (cases "oc = [] \<or> oc = ''ACTIVE'' \<or> oc = ''OPEN'' \<or> recorded s
              \<or> duplicate_exists (trades st) a s oc")
  case True
  then show ?thesis by (auto simp add: recordTradeOutcome_def)
next
  case False
  then show ?thesis by (simp add: recordTradeOutcome_def Let_def)
qed

lemma recordTradeOutcome_guard:
  assumes "oc = [] \<or> oc = ''ACTIVE'' \<or> oc = ''OPEN'' \<or> recorded s
           \<or> duplicate_exists (trades st) a s oc"
  shows "recordTradeOutcome st now a s oc p = (st, s)"
  using assms by (auto simp add: recordTradeOutcome_def)

lemma recordTradeOutcome_flags:
  assumes "\<not> (oc = [] \<or> oc = ''ACTIVE'' \<or> oc = ''OPEN'' \<or> recorded s
              \<or> duplicate_exists (trades st) a s oc)"
  shows "recorded (snd (recordTradeOutcome st now a s oc p))"
  using assms by (simp add: recordTradeOutcome_def Let_def)

lemma recordTradeOutcome_twice:
  "recordTradeOutcome (fst (recordTradeOutcome st now a s oc p)) now' a
      (snd (recordTradeOutcome st now a s oc p)) oc p'
   = recordTradeOutcome st now a s oc p"
proof (cases "oc = [] \<or> oc = ''ACTIVE'' \<or> oc = ''OPEN'' \<or> recorded s
              \<or> duplicate_exists (trades st) a s oc")
  case True
  have first: "recordTradeOutcome st now a s oc p = (st, s)"
    using True by (rule recordTradeOutcome_guard)
  have second: "recordTradeOutcome st now' a s oc p' = (st, s)"
    using True by (rule recordTradeOutcome_guard)
  show ?thesis
    unfolding first fst_conv snd_conv by (rule second)
next
  case False
  then have "recorded (snd (recordTradeOutcome st now a s oc p))"
    by (rule recordTradeOutcome_flags)
  then show ?thesis
    by (simp add: recordTradeOutcome_guard)
qed

lemma duplicate_exists_iff:
  "oc \<noteq> [] \<Longrightarrow>
   duplicate_exists ts a s oc
     = (\<exists>t\<in>set ts. trade_asset t = a
            \<and> \<bar>entryPrice (trade_setup t) - entryPrice s\<bar> < 0.5 \<and> trade_outcome t = oc)"
  by (auto simp add: duplicate_exists_def list_ex_iff)

lemma recordTradeOutcome_appends:
  assumes "\<not> (oc = [] \<or> oc = ''ACTIVE'' \<or> oc = ''OPEN'' \<or> recorded s
              \<or> duplicate_exists (trades st) a s oc)"
  shows "\<exists>tr. trades (fst (recordTradeOutcome st now a s oc p)) = trades st @ [tr]
           \<and> trade_asset tr = a \<and> trade_outcome tr = oc
           \<and> trade_setup tr = s\<lparr>recorded := True\<rparr>
           \<and> snd (recordTradeOutcome st now a s oc p) = s\<lparr>recorded := True\<rparr>"
  using assms by (simp add: recordTradeOutcome_def Let_def)

text \<open>
  The recorder of the trading engine records a close once. A call whose outcome is not
  terminal (unset, ACTIVE or OPEN), or whose setup is already flagged as recorded, or for
  which a record of the same asset with the same outcome and an entry price within 0.5
  exists, changes neither the state nor the setup. Any other call appends exactly one
  record, of the asset, the outcome and the setup, and flags the setup. A second call
  with the setup as the first call left it changes nothing.
\<close>

theorem trading_engine_records_once:
  "((oc = [] \<or> oc = ''ACTIVE'' \<or> oc = ''OPEN'' \<or> recorded s
      \<or> (\<exists>t\<in>set (trades st). trade_asset t = a
             \<and> \<bar>entryPrice (trade_setup t) - entryPrice s\<bar> < 0.5
             \<and> trade_outcome t = oc))
     \<longrightarrow> recordTradeOutcome st now a s oc p = (st, s))
   \<and> (\<not> (oc = [] \<or> oc = ''ACTIVE'' \<or> oc = ''OPEN'' \<or> recorded s
      \<or> (\<exists>t\<in>set (trades st). trade_asset t = a
             \<and> \<bar>entryPrice (trade_setup t) - entryPrice s\<bar> < 0.5
             \<and> trade_outcome t = oc))
     \<longrightarrow> (\<exists>tr. trades (fst (recordTradeOutcome st now a s oc p)) = trades st @ [tr]
            \<and> trade_asset tr = a \<and> trade_outcome tr = oc
            \<and> trade_setup tr = s\<lparr>recorded := True\<rparr>
            \<and> snd (recordTradeOutcome st now a s oc p) = s\<lparr>recorded := True\<rparr>))
   \<and> recordTradeOutcome (fst (recordTradeOutcome st now a s oc p)) now' a
        (snd (recordTradeOutcome st now a s oc p)) oc p'
      = recordTradeOutcome st now a s oc p"
proof (intro conjI impI)
  assume "oc = [] \<or> oc = ''ACTIVE'' \<or> oc = ''OPEN'' \<or> recorded s
      \<or> (\<exists>t\<in>set (trades st). trade_asset t = a
             \<and> \<bar>entryPrice (trade_setup t) - entryPrice s\<bar> < 0.5
             \<and> trade_outcome t = oc)"
  then show "recordTradeOutcome st now a s oc p = (st, s)"
    by (rule recordTradeOutcome_noop)
next
  assume n: "\<not> (oc = [] \<or> oc = ''ACTIVE'' \<or> oc = ''OPEN'' \<or> recorded s
      \<or> (\<exists>t\<in>set (trades st). trade_asset t = a
             \<and> \<bar>entryPrice (trade_setup t) - entryPrice s\<bar> < 0.5
             \<and> trade_outcome t = oc))"
  then have "oc \<noteq> []" by blast
  with n have "\<not> (oc = [] \<or> oc = ''ACTIVE'' \<or> oc = ''OPEN'' \<or> recorded s
              \<or> duplicate_exists (trades st) a s oc)"
    by (simp add: duplicate_exists_iff)
  then show "\<exists>tr. trades (fst (recordTradeOutcome st now a s oc p)) = trades st @ [tr]
            \<and> trade_asset tr = a \<and> trade_outcome tr = oc
            \<and> trade_setup tr = s\<lparr>recorded := True\<rparr>
            \<and> snd (recordTradeOutcome st now a s oc p) = s\<lparr>recorded := True\<rparr>"
    by (rule recordTradeOutcome_appends)
next
  show "recordTradeOutcome (fst (recordTradeOutcome st now a s oc p)) now' a
        (snd (recordTradeOutcome st now a s oc p)) oc p'
      = recordTradeOutcome st now a s oc p"
    by (rule recordTradeOutcome_twice)
qed

text \<open>
  C10: once a close of a position is recorded, the close of another position of the same
  asset with the same outcome and an entry price within 0.5 of the first is dropped by
  the duplicate check: no record is appended, the state is unchanged, the flag of the
  second setup stays false, and \<^verbatim>\<open>updateTradeStatus\<close> still clears its slot.
\<close>

theorem proximity_check_drops_second_position:
  assumes "recordTradeOutcome st now a s1 oc p1 = (st1, s1')"
    and "length (trades st1) = Suc (length (trades st))"
    and "\<bar>entryPrice s2 - entryPrice s1\<bar> < 0.5"
    and "\<not> recorded s2"
  shows "recordTradeOutcome st1 now2 a s2 oc p2 = (st1, s2)
       \<and> trades (fst (recordTradeOutcome st1 now2 a s2 oc p2)) = trades st1
       \<and> \<not> recorded (snd (recordTradeOutcome st1 now2 a s2 oc p2))
       \<and> fst (close_trade st1 now2 a s2 oc p2) = st1\<lparr>activeTrades := (activeTrades st1)(a := None)\<rparr>"
proof -
  from recordTradeOutcome_cases [of st now a s1 oc p1] assms(1,2)
  obtain tr where tr: "trade_asset tr = a" "trade_outcome tr = oc"
      "entryPrice (trade_setup tr) = entryPrice s1" "trades st1 = trades st @ [tr]"
    by auto
  have "\<exists>t\<in>set (trades st1). trade_asset t = a
          \<and> \<bar>entryPrice (trade_setup t) - entryPrice s2\<bar> < 0.5 \<and> trade_outcome t = oc"
    using tr assms(3) by (auto simp add: abs_minus_commute)
  then have "recordTradeOutcome st1 now2 a s2 oc p2 = (st1, s2)"
    by (intro recordTradeOutcome_noop) blast
  with assms(4) show ?thesis by (simp add: close_trade_def)
qed

theorem proximity_check_drops_second_position_witness:
  "length (trades (fst (recordTradeOutcome initial_engine 1000 ''btc'' demo_setup ''LOSS'' 0.5)))
     = Suc (length (trades initial_engine))
   \<and> \<bar>entryPrice later_setup - entryPrice demo_setup\<bar> < 0.5
   \<and> timestamp later_setup \<noteq> timestamp demo_setup
   \<and> \<not> recorded later_setup
   \<and> trades (fst (recordTradeOutcome after_loss 950000 ''btc'' later_setup ''LOSS'' 0.6))
       = trades after_loss
   \<and> \<not> recorded (snd (recordTradeOutcome after_loss 950000 ''btc'' later_setup ''LOSS'' 0.6))"
proof -
  have later: "entryPrice later_setup = 100.3" "\<not> recorded later_setup" "timestamp later_setup = 900000"
    by (simp_all add: later_setup_def new_setup_def Let_def)
  have h1: "recordTradeOutcome initial_engine 1000 ''btc'' demo_setup ''LOSS'' 0.5
              = (after_loss, snd (recordTradeOutcome initial_engine 1000 ''btc'' demo_setup ''LOSS'' 0.5))"
    by (simp add: after_loss_def)
  have h2: "length (trades after_loss) = Suc (length (trades initial_engine))"
    using arg_cong [OF after_loss_facts(1), of length] by (simp add: initial_engine_def)
  have h3: "\<bar>entryPrice later_setup - entryPrice demo_setup\<bar> < 0.5"
    by (simp add: later demo_setup_fields)
  from proximity_check_drops_second_position [OF h1 h2 h3 later(2), where ?now2.0 = 950000 and ?p2.0 = "0.6"]
  show ?thesis
    using h2 h3 later by (simp add: after_loss_def demo_setup_fields)
qed

section \<open>Exits\<close>

text \<open>
  C3: for a position that has reached its first target and not its second, at a positive
  price that crosses both the second target and the (breakeven) stop, the trading engine
  takes the WIN branch and no other: the call equals the close with outcome WIN, the slot
  is cleared, and the trade list is unchanged or extended by one WIN record. The exit
  engine does the same on the stored blob.
\<close>

theorem target2_precedes_breakeven:
  assumes "reachedTarget1 s" and "\<not> reachedTarget2 s" and "cp > 0"
    and "(direction s = BULLISH \<and> cp \<ge> t2 s) \<or> (direction s = BEARISH \<and> cp \<le> t2 s)"
    and "(direction s = BULLISH \<and> cp \<le> stop s) \<or> (direction s = BEARISH \<and> cp \<ge> stop s)"
  shows "(activeTrades st a = Some s \<and> currentPrices st a = cp \<longrightarrow>
            updateTradeStatus st now a = close_trade st now a s ''WIN'' \<bar>t2 s - entryAvg s\<bar>
          \<and> snd (updateTradeStatus st now a) = Closed ''WIN'' \<bar>t2 s - entryAvg s\<bar>
          \<and> snd (updateTradeStatus st now a) \<noteq> Closed ''BREAKEVEN'' 0
          \<and> activeTrades (fst (updateTradeStatus st now a)) a = None
          \<and> (trades (fst (updateTradeStatus st now a)) = trades st
              \<or> (\<exists>tr. trades (fst (updateTradeStatus st now a)) = trades st @ [tr]
                     \<and> trade_outcome tr = ''WIN'')))
       \<and> (st_activeTrades db a = Some tr \<and> setup_of tr = s \<and> entryPrice s \<noteq> 0 \<longrightarrow>
            checkTradeExit db now a cp
              = (clearActiveTrade
                   (TradeDatabase_recordTradeOutcome db now a s ''WIN''
                      \<bar>t2 s - (entry_min s + entry_max s) / 2\<bar> cp) a,
                 Closed ''WIN'' \<bar>t2 s - (entry_min s + entry_max s) / 2\<bar>)
          \<and> st_activeTrades (fst (checkTradeExit db now a cp)) a = None)"
proof -
  have engine: "updateTradeStatus st now a = close_trade st now a s ''WIN'' \<bar>t2 s - entryAvg s\<bar>"
    if "activeTrades st a = Some s" "currentPrices st a = cp"
    using that assms by (simp add: updateTradeStatus_def Let_def)
  have closed: "snd (close_trade st now a s ''WIN'' x) = Closed ''WIN'' x"
    "activeTrades (fst (close_trade st now a s ''WIN'' x)) a = None"
    "trades (fst (close_trade st now a s ''WIN'' x)) = trades (fst (recordTradeOutcome st now a s ''WIN'' x))"
    for x
    by (simp_all add: close_trade_def Let_def)
  have rec: "trades (fst (recordTradeOutcome st now a s ''WIN'' x)) = trades st
       \<or> (\<exists>tr. trades (fst (recordTradeOutcome st now a s ''WIN'' x)) = trades st @ [tr]
              \<and> trade_outcome tr = ''WIN'')" for x
    using recordTradeOutcome_cases [of st now a s "''WIN''" x] by auto
  have exit: "checkTradeExit db now a cp
              = (clearActiveTrade
                   (TradeDatabase_recordTradeOutcome db now a s ''WIN''
                      \<bar>t2 s - (entry_min s + entry_max s) / 2\<bar> cp) a,
                 Closed ''WIN'' \<bar>t2 s - (entry_min s + entry_max s) / 2\<bar>)"
    if "st_activeTrades db a = Some tr" "setup_of tr = s" "entryPrice s \<noteq> 0"
    using that assms by (auto simp add: checkTradeExit_def Let_def)
  show ?thesis
    using engine closed rec exit by (simp add: clearActiveTrade_def)
qed

theorem target2_precedes_breakeven_witness:
  "reachedTarget1 degenerate_setup \<and> \<not> reachedTarget2 degenerate_setup
   \<and> direction degenerate_setup = BULLISH
   \<and> (101.25::real) \<ge> t2 degenerate_setup \<and> (101.25::real) \<le> stop degenerate_setup
   \<and> activeTrades degenerate_engine ''btc'' = Some degenerate_setup
   \<and> currentPrices degenerate_engine ''btc'' = 101.25
   \<and> snd (updateTradeStatus degenerate_engine 5000 ''btc'') = Closed ''WIN'' 1.25
   \<and> activeTrades (fst (updateTradeStatus degenerate_engine 5000 ''btc'')) ''btc'' = None
   \<and> snd (checkTradeExit degenerate_store 5000 ''btc'' 101.25) = Closed ''WIN'' 1.25"
proof -
  have s: "reachedTarget1 degenerate_setup" "\<not> reachedTarget2 degenerate_setup"
    "direction degenerate_setup = BULLISH" "t2 degenerate_setup = 101.25"
    "stop degenerate_setup = 101.25" "entryPrice degenerate_setup = 100"
    "entry_min degenerate_setup = 99.95" "entry_max degenerate_setup = 100.05"
    by (simp_all add: degenerate_setup_def demo_setup_def new_setup_def Let_def
        calculateSetupLevels_def initial_engine_def)
  have e: "activeTrades degenerate_engine ''btc'' = Some degenerate_setup"
    "currentPrices degenerate_engine ''btc'' = 101.25"
    "st_activeTrades degenerate_store ''btc'' = Some (Direct degenerate_setup)"
    by (simp_all add: degenerate_engine_def degenerate_store_def initial_engine_def)
  have avg: "entryAvg degenerate_setup = 100"
    by (simp add: entryAvg_def s)
  have h: "(0::real) < 101.25"
    "(direction degenerate_setup = BULLISH \<and> (101.25::real) \<ge> t2 degenerate_setup)
     \<or> (direction degenerate_setup = BEARISH \<and> (101.25::real) \<le> t2 degenerate_setup)"
    "(direction degenerate_setup = BULLISH \<and> (101.25::real) \<le> stop degenerate_setup)
     \<or> (direction degenerate_setup = BEARISH \<and> (101.25::real) \<ge> stop degenerate_setup)"
    by (simp_all add: s)
  from target2_precedes_breakeven [OF s(1) s(2) h, where st = degenerate_engine and a = "''btc''"
      and now = 5000 and db = degenerate_store and tr = "Direct degenerate_setup"]
  show ?thesis
    using s e avg by (simp add: close_trade_def Let_def)
qed

section \<open>The end-to-end example\<close>

lemma run_start_active: "activeTrades run_start ''btc'' = Some demo_setup"
  by (simp add: run_start_def generateAISetup_def updatePrice_def Let_def demo_setup_def
      new_setup_def initial_engine_def)

lemma run_start_rest: "trades run_start = []" "performance run_start = initial_performance"
  by (simp_all add: run_start_def generateAISetup_def updatePrice_def Let_def initial_engine_def)

lemma updatePrice_sets:
  "p > 0 \<Longrightarrow> currentPrices (updatePrice st now a p c) a = p"
  "activeTrades (updatePrice st now a p c) = activeTrades st"
  "trades (updatePrice st now a p c) = trades st"
  "performance (updatePrice st now a p c) = performance st"
  by (simp_all add: updatePrice_def Let_def)

lemma tick_1: "tick run_start 2000 100 = (updatePrice run_start 2000 ''btc'' 100 0, NoExit)"
  by (simp add: tick_def updateTradeStatus_def updatePrice_sets run_start_active Let_def
      demo_setup_fields stop_loss_level_def)

lemma run_1_facts: "activeTrades run_1 ''btc'' = Some demo_setup" "trades run_1 = []"
  "performance run_1 = initial_performance"
  by (simp_all add: run_1_def tick_1 updatePrice_sets run_start_active run_start_rest)

lemma tick_2: "snd (tick run_1 3000 100.8) = Target1Hit"
  "activeTrades run_2 ''btc'' = Some armed_setup" "trades run_2 = []"
  "performance run_2 = initial_performance"
  by (simp_all add: run_2_def tick_def updateTradeStatus_def updatePrice_sets run_1_facts Let_def
      demo_setup_fields entryAvg_demo armed_setup_def)

lemma pnl_armed: "calculatePnL RISK_PER_TRADE (armed_setup\<lparr>recorded := True\<rparr>) ''WIN'' = Fin 30"
  by (simp add: calculatePnL_def armed_fields js_div_def RISK_PER_TRADE_def)

lemma pnl_original: "calculatePnL RISK_PER_TRADE demo_setup ''WIN'' = Fin 25"
  by (simp add: calculatePnL_def demo_setup_fields js_div_def RISK_PER_TRADE_def)

lemma tick_3: "snd (tick run_2 4000 101.3) = Closed ''WIN'' 1.25"
  "activeTrades run_3 ''btc'' = None"
  "map trade_outcome (trades run_3) = [''WIN'']"
  "map trade_profit (trades run_3) = [30]"
  by (simp_all add: run_3_def tick_def updateTradeStatus_def updatePrice_sets tick_2 Let_def
      armed_fields entryAvg_armed close_trade_def recordTradeOutcome_def duplicate_exists_def
      pnl_armed)

text \<open>
  C1, evaluated on the code: the position opened at 100 has stop 99.5 and targets 100.75
  and 101.25; the price 100 changes nothing, 100.8 moves the stop to 100, 101.3 closes the
  position as WIN with the profit 1.25 handed to the recorder. The record holds a
  realized P&L of 30, not 25: the recorder reads the stop after it was moved to the entry
  price, the stop distance is 0 and the fallback of three times the risk is taken. With
  the stop the position was opened with, the formula gives 25.
\<close>

theorem end_to_end_win_pays_fallback:
  "map_option stop (activeTrades run_start ''btc'') = Some 99.5
   \<and> map_option t1 (activeTrades run_start ''btc'') = Some 100.75
   \<and> map_option t2 (activeTrades run_start ''btc'') = Some 101.25
   \<and> map_option direction (activeTrades run_start ''btc'') = Some BULLISH
   \<and> snd (tick run_start 2000 100) = NoExit
   \<and> snd (tick run_1 3000 100.8) = Target1Hit
   \<and> map_option stop (activeTrades run_2 ''btc'') = Some 100
   \<and> map_option reachedTarget1 (activeTrades run_2 ''btc'') = Some True
   \<and> snd (tick run_2 4000 101.3) = Closed ''WIN'' 1.25
   \<and> activeTrades run_3 ''btc'' = None
   \<and> map trade_outcome (trades run_3) = [''WIN'']
   \<and> map trade_profit (trades run_3) = [30]
   \<and> sanitize (calculatePnL RISK_PER_TRADE demo_setup ''WIN'') = 25"
proof -
  have opened: "map_option stop (activeTrades run_start ''btc'') = Some 99.5"
    "map_option t1 (activeTrades run_start ''btc'') = Some 100.75"
    "map_option t2 (activeTrades run_start ''btc'') = Some 101.25"
    "map_option direction (activeTrades run_start ''btc'') = Some BULLISH"
    by (simp_all add: run_start_active demo_setup_fields)
  have first: "snd (tick run_start 2000 100) = NoExit"
    by (simp add: tick_1)
  have armed: "map_option stop (activeTrades run_2 ''btc'') = Some 100"
    "map_option reachedTarget1 (activeTrades run_2 ''btc'') = Some True"
    by (simp_all add: tick_2 armed_fields)
  have formula: "sanitize (calculatePnL RISK_PER_TRADE demo_setup ''WIN'') = 25"
    by (simp add: pnl_original)
  show ?thesis
    by (intro conjI opened first tick_2(1) armed tick_3 formula)
qed

section \<open>The aggregates\<close>

lemma recompute_single:
  "map trade_profit ts = [x] \<Longrightarrow> map trade_outcome ts = [oc] \<Longrightarrow>
   totalProfit (recompute_performance ts) = x
   \<and> breakevenRate (recompute_performance ts) = (if oc = ''BREAKEVEN'' then 100 else 0)"
  by (cases ts) (simp_all add: recompute_performance_def Let_def total_profit_of_def count_outcome_def)

text \<open>
  C5, evaluated on the code: the recorder of the trading engine never writes
  \<^verbatim>\<open>totalProfit\<close> and \<^verbatim>\<open>breakevenRate\<close>. After one recorded LOSS on the fresh engine the
  stored total profit is 0, the recomputed one -10; after one recorded BREAKEVEN the
  stored breakeven rate is 0, the recomputed one 100. The recorder of the exit engine
  computes both.
\<close>

theorem trading_engine_skips_totalProfit_and_breakevenRate:
  "map trade_profit (trades after_loss) = [-10]
   \<and> totalProfit (performance after_loss) = 0
   \<and> totalProfit (recompute_performance (trades after_loss)) = -10
   \<and> map trade_outcome (trades after_breakeven) = [''BREAKEVEN'']
   \<and> breakevenRate (performance after_breakeven) = 0
   \<and> breakevenRate (recompute_performance (trades after_breakeven)) = 100
   \<and> totalProfit (st_performance
        (TradeDatabase_recordTradeOutcome empty_store 1000 ''btc'' demo_setup ''LOSS'' 0.5 99.4)) = -10
   \<and> breakevenRate (st_performance
        (TradeDatabase_recordTradeOutcome empty_store 1000 ''btc'' armed_setup ''BREAKEVEN'' 0 100)) = 100"
proof -
  have exit1: "totalProfit (st_performance
        (TradeDatabase_recordTradeOutcome empty_store 1000 ''btc'' demo_setup ''LOSS'' 0.5 99.4)) = -10"
    by (simp add: TradeDatabase_recordTradeOutcome_def empty_store_def Let_def calculatePnL_def
        exit_update_performance_def total_profit_of_def initial_performance_def)
  have exit2: "breakevenRate (st_performance
        (TradeDatabase_recordTradeOutcome empty_store 1000 ''btc'' armed_setup ''BREAKEVEN'' 0 100)) = 100"
    by (simp add: TradeDatabase_recordTradeOutcome_def empty_store_def Let_def calculatePnL_def
        exit_update_performance_def total_profit_of_def initial_performance_def)
  have r1: "totalProfit (recompute_performance (trades after_loss)) = -10"
    using recompute_single [OF after_loss_facts(1,2)] by simp
  have r2: "breakevenRate (recompute_performance (trades after_breakeven)) = 100"
    using recompute_single [OF after_breakeven_facts(1,2)] by simp
  show ?thesis
    by (intro conjI after_loss_facts(1,3) r1 after_breakeven_facts(2,3) r2 exit1 exit2)
qed

section \<open>The manual close\<close>

lemma toLowerCase_BTC: "toLowerCase ''BTC'' = ''btc''"
  by code_simp

lemma update_first_None: "update_first P f xs = None \<Longrightarrow> \<not> list_ex P xs"
  by (induction xs) (auto split: if_splits)

lemma update_first_split:
  "update_first P f xs = Some ys \<Longrightarrow>
     \<exists>pre x post. xs = pre @ x # post \<and> \<not> list_ex P pre \<and> P x \<and> ys = pre @ f x # post"
proof (induction xs arbitrary: ys)
  case Nil
  then show ?case by simp
next
  case (Cons x xs)
  show ?case
  proof (cases "P x")
    case True
    with Cons.prems have "ys = f x # xs" by simp
    with True have "x # xs = [] @ x # xs \<and> \<not> list_ex P [] \<and> P x \<and> ys = [] @ f x # xs"
      by simp
    then show ?thesis by blast
  next
    case False
    with Cons.prems obtain zs where zs: "update_first P f xs = Some zs" "ys = x # zs"
      by auto
    from Cons.IH [OF zs(1)] obtain pre y post
      where "xs = pre @ y # post" "\<not> list_ex P pre" "P y" "zs = pre @ f y # post"
      by blast
    with False zs(2)
    have "x # xs = (x # pre) @ y # post \<and> \<not> list_ex P (x # pre) \<and> P y
          \<and> ys = (x # pre) @ f y # post"
      by simp
    then show ?thesis by blast
  qed
qed

lemma manual_trades_exact:
  "(\<exists>pre t post. st_trades db = pre @ t # post \<and> \<not> list_ex (open_record_of a s) pre
        \<and> open_record_of a s t
        \<and> manual_trades db now rq a s
            = pre @ t\<lparr>trade_outcome := rq_outcome rq,
                       trade_profit := (case rq_profit rq of Some v \<Rightarrow> v | None \<Rightarrow> 0),
                       exitPrice := rq_exitPrice rq, exitTime := Some now,
                       closedBy := ''MANUAL_API''\<rparr> # post)
   \<or> (\<not> list_ex (open_record_of a s) (st_trades db)
       \<and> manual_trades db now rq a s
           = st_trades db @
               [\<lparr>trade_asset = a, trade_setup = s, trade_outcome = rq_outcome rq,
                 trade_profit = (case rq_profit rq of Some v \<Rightarrow> v | None \<Rightarrow> 0),
                 trade_timestamp = timestamp s,
                 trade_marketCondition = None, trade_volatilityLevel = None,
                 trade_sessionActive = None,
                 exitPrice = rq_exitPrice rq, exitTime = Some now,
                 closedBy = ''MANUAL_API''\<rparr>])"
proof (cases "update_first (open_record_of a s)
             (\<lambda>t. t\<lparr>trade_outcome := rq_outcome rq,
                     trade_profit := (case rq_profit rq of Some x \<Rightarrow> x | None \<Rightarrow> 0),
                     exitPrice := rq_exitPrice rq, exitTime := Some now,
                     closedBy := ''MANUAL_API''\<rparr>) (st_trades db)")
  case None
  from update_first_None [OF None] None show ?thesis
    by (simp add: manual_trades_def)
next
  case (Some ys)
  have ts: "manual_trades db now rq a s = ys"
    by (simp add: manual_trades_def Some)
  from update_first_split [OF Some] show ?thesis
    unfolding ts by blast
qed

lemma manual_close_unfold:
  assumes "rq_asset rq \<noteq> []" and "rq_outcome rq \<noteq> []" and "rq_exitPrice rq = Some x" and "x \<noteq> 0"
    and "st_activeTrades db (toLowerCase (rq_asset rq)) = Some (Wrapped s)"
  shows "manual_close db now rq =
     Inr (db\<lparr>st_trades := manual_trades db now rq (toLowerCase (rq_asset rq)) s,
             st_activeTrades := (st_activeTrades db)(toLowerCase (rq_asset rq) := None),
             st_performance :=
               (let p1 = (st_performance db)
                      \<lparr>totalTrades := int (length (manual_trades db now rq (toLowerCase (rq_asset rq)) s))\<rparr>
                in if rq_outcome rq = ''WIN'' then p1\<lparr>winners := winners p1 + 1\<rparr>
                   else if rq_outcome rq = ''LOSS'' then p1\<lparr>losers := losers p1 + 1\<rparr>
                   else if rq_outcome rq = ''BREAKEVEN'' then p1\<lparr>breakevenTrades := breakevenTrades p1 + 1\<rparr>
                   else p1)\<rparr>)"
  using assms by (simp add: manual_close_def manual_trades_def Let_def)

text \<open>
  C7, as the code has it: for a request with an asset, an outcome and a non-zero exit
  price, when the slot of the lower-cased asset holds a position under a \<^verbatim>\<open>setup\<close>
  property, the manual close succeeds and clears that slot and no other. If the trade
  list has an open record of the position (same asset, same setup timestamp, no outcome),
  the first such record is completed in place with the requested outcome, the requested
  profit (0 when absent), the exit price, the time and the tag \<^verbatim>\<open>MANUAL_API\<close>, and the rest
  of the list is unchanged; otherwise exactly one new record with these values is
  appended. Of the aggregates it sets \<^verbatim>\<open>totalTrades\<close> to the length of the list and adds
  one to the counter of the outcome; win rate, profit factor, average win and loss,
  breakeven rate and total profit stay as they were.
\<close>

theorem manual_close_simplified:
  assumes "rq_asset rq \<noteq> []" and "rq_outcome rq \<noteq> []" and "rq_exitPrice rq = Some x" and "x \<noteq> 0"
    and "st_activeTrades db (toLowerCase (rq_asset rq)) = Some (Wrapped s)"
    and "a = toLowerCase (rq_asset rq)"
    and "profit = (case rq_profit rq of Some v \<Rightarrow> v | None \<Rightarrow> 0)"
  shows "\<exists>db'. manual_close db now rq = Inr db'
     \<and> st_activeTrades db' = (st_activeTrades db)(a := None)
     \<and> ((\<exists>pre t post. st_trades db = pre @ t # post
             \<and> \<not> list_ex (open_record_of a s) pre \<and> open_record_of a s t
             \<and> st_trades db'
                 = pre @ t\<lparr>trade_outcome := rq_outcome rq, trade_profit := profit,
                            exitPrice := Some x, exitTime := Some now,
                            closedBy := ''MANUAL_API''\<rparr> # post)
        \<or> (\<not> list_ex (open_record_of a s) (st_trades db)
            \<and> st_trades db'
                = st_trades db @
                    [\<lparr>trade_asset = a, trade_setup = s, trade_outcome = rq_outcome rq,
                      trade_profit = profit, trade_timestamp = timestamp s,
                      trade_marketCondition = None, trade_volatilityLevel = None,
                      trade_sessionActive = None,
                      exitPrice = Some x, exitTime = Some now,
                      closedBy = ''MANUAL_API''\<rparr>]))
     \<and> totalTrades (st_performance db') = int (length (st_trades db'))
     \<and> winners (st_performance db')
         = winners (st_performance db) + (if rq_outcome rq = ''WIN'' then 1 else 0)
     \<and> losers (st_performance db')
         = losers (st_performance db) + (if rq_outcome rq = ''LOSS'' then 1 else 0)
     \<and> breakevenTrades (st_performance db')
         = breakevenTrades (st_performance db) + (if rq_outcome rq = ''BREAKEVEN'' then 1 else 0)
     \<and> winRate (st_performance db') = winRate (st_performance db)
     \<and> profitFactor (st_performance db') = profitFactor (st_performance db)
     \<and> avgWin (st_performance db') = avgWin (st_performance db)
     \<and> avgLoss (st_performance db') = avgLoss (st_performance db)
     \<and> breakevenRate (st_performance db') = breakevenRate (st_performance db)
     \<and> totalProfit (st_performance db') = totalProfit (st_performance db)"
proof -
  have lists: "(\<exists>pre t post. st_trades db = pre @ t # post
             \<and> \<not> list_ex (open_record_of a s) pre \<and> open_record_of a s t
             \<and> manual_trades db now rq a s
                 = pre @ t\<lparr>trade_outcome := rq_outcome rq, trade_profit := profit,
                            exitPrice := Some x, exitTime := Some now,
                            closedBy := ''MANUAL_API''\<rparr> # post)
        \<or> (\<not> list_ex (open_record_of a s) (st_trades db)
            \<and> manual_trades db now rq a s
                = st_trades db @
                    [\<lparr>trade_asset = a, trade_setup = s, trade_outcome = rq_outcome rq,
                      trade_profit = profit, trade_timestamp = timestamp s,
                      trade_marketCondition = None, trade_volatilityLevel = None,
                      trade_sessionActive = None,
                      exitPrice = Some x, exitTime = Some now,
                      closedBy = ''MANUAL_API''\<rparr>])"
    using manual_trades_exact [of db a s now rq] unfolding assms(3) assms(7) .
  show ?thesis
    unfolding manual_close_unfold [OF assms(1-5)] assms(6) [symmetric]
    using lists by (simp add: Let_def)
qed

lemma wrapped_manual:
  "manual_close wrapped_store 5000 win_request =
     Inr \<lparr>st_trades =
            [\<lparr>trade_asset = ''btc'', trade_setup = armed_setup, trade_outcome = ''WIN'',
              trade_profit = 5, trade_timestamp = 1000,
              trade_marketCondition = None, trade_volatilityLevel = None,
              trade_sessionActive = None,
              exitPrice = Some 101.3, exitTime = Some 5000, closedBy = ''MANUAL_API''\<rparr>],
          st_activeTrades = (\<lambda>_. None),
          st_performance = initial_performance\<lparr>totalTrades := 1, winners := 1\<rparr>\<rparr>"
  by (simp add: manual_close_def wrapped_store_def win_request_def toLowerCase_BTC Let_def
      armed_setup_def demo_setup_fields fun_eq_iff initial_performance_def)

theorem manual_close_simplified_witness:
  "rq_asset win_request \<noteq> [] \<and> rq_outcome win_request \<noteq> []
   \<and> rq_exitPrice win_request = Some 101.3 \<and> (101.3::real) \<noteq> 0
   \<and> st_activeTrades wrapped_store (toLowerCase (rq_asset win_request)) = Some (Wrapped armed_setup)
   \<and> st_activeTrades open_record_store (toLowerCase (rq_asset win_request)) = Some (Wrapped armed_setup)
   \<and> (\<exists>db'. manual_close wrapped_store 5000 win_request = Inr db'
          \<and> st_activeTrades db' ''btc'' = None
          \<and> map closedBy (st_trades db') = [''MANUAL_API'']
          \<and> map trade_profit (st_trades db') = [5]
          \<and> winners (st_performance db') = 1
          \<and> winRate (st_performance db') = 0)
   \<and> (\<exists>db'. manual_close open_record_store 5000 win_request = Inr db'
          \<and> map closedBy (st_trades db') = [''MANUAL_API'']
          \<and> map trade_outcome (st_trades db') = [''WIN'']
          \<and> map trade_setup (st_trades db') = [demo_setup])"
proof -
  have h: "rq_asset win_request \<noteq> []" "rq_outcome win_request \<noteq> []"
    "rq_exitPrice win_request = Some 101.3" "(101.3::real) \<noteq> 0"
    "st_activeTrades wrapped_store (toLowerCase (rq_asset win_request)) = Some (Wrapped armed_setup)"
    "''btc'' = toLowerCase (rq_asset win_request)"
    "5 = (case rq_profit win_request of Some v \<Rightarrow> v | None \<Rightarrow> 0)"
    by (simp_all add: win_request_def wrapped_store_def toLowerCase_BTC)
  have h5: "st_activeTrades open_record_store (toLowerCase (rq_asset win_request)) = Some (Wrapped armed_setup)"
    by (simp add: win_request_def wrapped_store_def open_record_store_def toLowerCase_BTC)
  have oc: "rq_outcome win_request = ''WIN''"
    by (simp add: win_request_def)
  have perf: "winners (st_performance wrapped_store) = 0" "winRate (st_performance wrapped_store) = 0"
    "st_trades wrapped_store = []"
    by (simp_all add: wrapped_store_def initial_performance_def)
  have opened: "st_trades open_record_store =
       [\<lparr>trade_asset = ''btc'', trade_setup = demo_setup, trade_outcome = [],
         trade_profit = 0, trade_timestamp = 1000,
         trade_marketCondition = Some RANGING, trade_volatilityLevel = Some NORMAL,
         trade_sessionActive = Some LONDON,
         exitPrice = None, exitTime = None, closedBy = []\<rparr>]"
    by (simp add: open_record_store_def)
  have is_open: "open_record_of ''btc'' armed_setup
       \<lparr>trade_asset = ''btc'', trade_setup = demo_setup, trade_outcome = [],
         trade_profit = 0, trade_timestamp = 1000,
         trade_marketCondition = Some RANGING, trade_volatilityLevel = Some NORMAL,
         trade_sessionActive = Some LONDON,
         exitPrice = None, exitTime = None, closedBy = []\<rparr>"
    by (simp add: open_record_of_def armed_setup_def demo_setup_fields)
  from manual_close_simplified [OF h(1-5) h(6) h(7), of 5000]
  have first: "\<exists>db'. manual_close wrapped_store 5000 win_request = Inr db'
          \<and> st_activeTrades db' ''btc'' = None
          \<and> map closedBy (st_trades db') = [''MANUAL_API'']
          \<and> map trade_profit (st_trades db') = [5]
          \<and> winners (st_performance db') = 1
          \<and> winRate (st_performance db') = 0"
    unfolding oc perf by auto
  from manual_close_simplified [OF h(1-4) h5 h(6) h(7), of 5000]
  have second: "\<exists>db'. manual_close open_record_store 5000 win_request = Inr db'
          \<and> map closedBy (st_trades db') = [''MANUAL_API'']
          \<and> map trade_outcome (st_trades db') = [''WIN'']
          \<and> map trade_setup (st_trades db') = [demo_setup]"
    unfolding oc opened using is_open
    by (auto simp add: Cons_eq_append_conv)
  from h(1-5) h5 first second show ?thesis by blast
qed

lemma automatic_facts:
  "map trade_profit (st_trades automatic_close) = [30]"
  "winRate (st_performance automatic_close) = 100"
  "map closedBy (st_trades automatic_close) = [''AUTONOMOUS_EXIT_ENGINE'']"
  by (simp_all add: automatic_close_def clearActiveTrade_def TradeDatabase_recordTradeOutcome_def
      wrapped_store_def Let_def calculatePnL_def armed_fields js_div_def
      exit_update_performance_def initial_performance_def)

text \<open>
  C7 as the specification states it fails: the manual close does not go through the
  recorder. On the same position the manual close stores the requested profit 5 and
  leaves the win rate at 0, where the recorder of the exit engine stores 30 and a win
  rate of 100; and a position stored as the trading engine writes it (the setup object
  itself) is answered with "not found" and stays open.
\<close>

theorem manual_close_counterexample:
  "\<not> isl (manual_close wrapped_store 5000 win_request)
   \<and> map trade_profit (st_trades (projr (manual_close wrapped_store 5000 win_request))) = [5]
   \<and> winRate (st_performance (projr (manual_close wrapped_store 5000 win_request))) = 0
   \<and> map trade_profit (st_trades automatic_close) = [30]
   \<and> winRate (st_performance automatic_close) = 100
   \<and> st_activeTrades degenerate_store ''btc'' = Some (Direct degenerate_setup)
   \<and> manual_close degenerate_store 5000 win_request = Inl NotFound"
proof -
  have m: "\<not> isl (manual_close wrapped_store 5000 win_request)"
    "map trade_profit (st_trades (projr (manual_close wrapped_store 5000 win_request))) = [5]"
    "winRate (st_performance (projr (manual_close wrapped_store 5000 win_request))) = 0"
    unfolding wrapped_manual by (simp_all add: initial_performance_def)
  have d: "st_activeTrades degenerate_store ''btc'' = Some (Direct degenerate_setup)"
    "manual_close degenerate_store 5000 win_request = Inl NotFound"
    by (simp_all add: manual_close_def degenerate_store_def win_request_def toLowerCase_BTC)
  show ?thesis
    by (intro conjI m automatic_facts(1,2) d)
qed

section \<open>The recorder of the exit engine\<close>

text \<open>
  The recorder of the exit engine has none of the three guards: recording the same close
  twice appends two records.
\<close>

lemma exit_engine_records_twice:
  "length (st_trades
     (TradeDatabase_recordTradeOutcome
        (TradeDatabase_recordTradeOutcome empty_store 4000 ''btc'' armed_setup ''WIN'' 1.25 101.3)
        5000 ''btc'' armed_setup ''WIN'' 1.25 101.3)) = 2"
  by (simp add: TradeDatabase_recordTradeOutcome_def empty_store_def Let_def open_record_of_def)

lemma armed_labels:
  "timestamp armed_setup = 1000" "setup_marketCondition armed_setup = RANGING"
  "setup_volatilityLevel armed_setup = NORMAL" "setup_sessionActive armed_setup = LONDON"
  by (simp_all add: armed_setup_def demo_setup_def new_setup_def Let_def initial_engine_def
      getCurrentSession_def)

lemma win_recorded_facts:
  "trades (fst win_recorded)
     = [\<lparr>trade_asset = ''btc'', trade_setup = armed_setup\<lparr>recorded := True\<rparr>,
         trade_outcome = ''WIN'', trade_profit = 30, trade_timestamp = 1000,
         trade_marketCondition = Some RANGING, trade_volatilityLevel = Some NORMAL,
         trade_sessionActive = Some LONDON,
         exitPrice = None, exitTime = None, closedBy = []\<rparr>]"
  "snd win_recorded = armed_setup\<lparr>recorded := True\<rparr>"
  "winners (performance (fst win_recorded)) = 1"
  by (simp_all add: win_recorded_def recordTradeOutcome_def tick_2 armed_fields armed_labels
      duplicate_exists_def Let_def pnl_armed update_performance_def initial_performance_def)

lemma mid_close_blob_facts:
  "st_trades mid_close_blob
     = [\<lparr>trade_asset = ''btc'', trade_setup = armed_setup\<lparr>recorded := True\<rparr>,
         trade_outcome = ''WIN'', trade_profit = 30, trade_timestamp = 1000,
         trade_marketCondition = Some RANGING, trade_volatilityLevel = Some NORMAL,
         trade_sessionActive = Some LONDON,
         exitPrice = None, exitTime = None, closedBy = []\<rparr>]"
  "st_activeTrades mid_close_blob ''btc'' = Some (Direct (armed_setup\<lparr>recorded := True\<rparr>))"
  "winners (st_performance mid_close_blob) = 1"
  by (simp_all add: mid_close_blob_def win_recorded_facts)

lemma mid_close_blob_exit:
  "snd (checkTradeExit mid_close_blob 5000 ''btc'' 101.3) = Closed ''WIN'' 1.25"
  "map trade_asset (st_trades (fst (checkTradeExit mid_close_blob 5000 ''btc'' 101.3))) = [''btc'', ''btc'']"
  "map trade_outcome (st_trades (fst (checkTradeExit mid_close_blob 5000 ''btc'' 101.3))) = [''WIN'', ''WIN'']"
  "map (\<lambda>t. entryPrice (trade_setup t)) (st_trades (fst (checkTradeExit mid_close_blob 5000 ''btc'' 101.3)))
     = [100, 100]"
  "winners (st_performance (fst (checkTradeExit mid_close_blob 5000 ''btc'' 101.3))) = 2"
  by (simp_all add: checkTradeExit_def mid_close_blob_facts Let_def armed_fields clearActiveTrade_def
      TradeDatabase_recordTradeOutcome_def open_record_of_def exit_update_performance_def)

lemma exit_recorder_unguarded:
  "map trade_outcome (st_trades
     (TradeDatabase_recordTradeOutcome empty_store 4000 ''btc'' armed_setup ''ACTIVE'' 0 100)) = [''ACTIVE'']"
  by (simp add: TradeDatabase_recordTradeOutcome_def empty_store_def Let_def)

text \<open>
  C4, evaluated on the code: recording is idempotent in the trading engine and not in the
  exit engine. The trading engine records the WIN close of the end-to-end run and a
  second call changes nothing. The exit engine, given the blob that the trading engine
  pushed from inside that call (record appended, setup flagged as recorded, slot not yet
  cleared), closes the position again at the same price and appends a second WIN record
  of the same asset and entry price; its recorder also stores a record with the outcome
  ACTIVE, and stores the same close twice when called twice.
\<close>

theorem exit_engine_records_close_again:
  "activeTrades run_2 ''btc'' = Some armed_setup
   \<and> map trade_outcome (st_trades mid_close_blob) = [''WIN'']
   \<and> map_option (\<lambda>t. recorded (setup_of t)) (st_activeTrades mid_close_blob ''btc'') = Some True
   \<and> recordTradeOutcome (fst win_recorded) 5000 ''btc'' (snd win_recorded) ''WIN'' 1.25
       = win_recorded
   \<and> snd (checkTradeExit mid_close_blob 5000 ''btc'' 101.3) = Closed ''WIN'' 1.25
   \<and> map trade_asset (st_trades (fst (checkTradeExit mid_close_blob 5000 ''btc'' 101.3)))
       = [''btc'', ''btc'']
   \<and> map trade_outcome (st_trades (fst (checkTradeExit mid_close_blob 5000 ''btc'' 101.3)))
       = [''WIN'', ''WIN'']
   \<and> map (\<lambda>t. entryPrice (trade_setup t))
        (st_trades (fst (checkTradeExit mid_close_blob 5000 ''btc'' 101.3))) = [100, 100]
   \<and> winners (st_performance (fst (checkTradeExit mid_close_blob 5000 ''btc'' 101.3))) = 2
   \<and> map trade_outcome (st_trades
        (TradeDatabase_recordTradeOutcome empty_store 4000 ''btc'' armed_setup ''ACTIVE'' 0 100))
       = [''ACTIVE'']
   \<and> length (st_trades
        (TradeDatabase_recordTradeOutcome
           (TradeDatabase_recordTradeOutcome empty_store 4000 ''btc'' armed_setup ''WIN'' 1.25 101.3)
           5000 ''btc'' armed_setup ''WIN'' 1.25 101.3)) = 2"
proof -
  have blob: "map trade_outcome (st_trades mid_close_blob) = [''WIN'']"
    "map_option (\<lambda>t. recorded (setup_of t)) (st_activeTrades mid_close_blob ''btc'') = Some True"
    by (simp_all add: mid_close_blob_facts)
  have engine: "recordTradeOutcome (fst win_recorded) 5000 ''btc'' (snd win_recorded) ''WIN'' 1.25
       = win_recorded"
    unfolding win_recorded_def by (rule recordTradeOutcome_twice)
  show ?thesis
    by (intro conjI tick_2(2) blob engine mid_close_blob_exit exit_recorder_unguarded
        exit_engine_records_twice)
qed

section \<open>The aggregates the trading engine maintains\<close>

text \<open>
  The fields that the recorder of the trading engine does write stay equal to their
  recomputed values, from the fresh engine on.
\<close>

lemma count_outcome_snoc:
  "count_outcome oc (ts @ [t]) = count_outcome oc ts + (if trade_outcome t = oc then 1 else 0)"
  by (simp add: count_outcome_def)

lemma total_abs_profit_snoc:
  "total_abs_profit oc (ts @ [t])
     = total_abs_profit oc ts + (if trade_outcome t = oc then \<bar>trade_profit t\<bar> else 0)"
  by (simp add: total_abs_profit_def)

lemma count_outcome_nonneg: "0 \<le> count_outcome oc ts"
  by (simp add: count_outcome_def)

lemma update_performance_agrees:
  assumes "agrees_on_maintained perf ts" and "trade_outcome t = oc"
  shows "agrees_on_maintained (update_performance perf (ts @ [t]) oc) (ts @ [t])"
proof -
  have nn: "0 \<le> count_outcome ''WIN'' ts" "0 \<le> count_outcome ''LOSS'' ts"
    by (rule count_outcome_nonneg)+
  consider "oc = ''WIN''" | "oc = ''LOSS''" | "oc = ''BREAKEVEN''"
    | "oc \<noteq> ''WIN''" "oc \<noteq> ''LOSS''" "oc \<noteq> ''BREAKEVEN''"
    by blast
  then show ?thesis
  proof cases
    case 1
    with assms nn show ?thesis
      by (simp add: agrees_on_maintained_def update_performance_def recompute_performance_def
          Let_def count_outcome_snoc total_abs_profit_snoc)
  next
    case 2
    with assms nn show ?thesis
      by (simp add: agrees_on_maintained_def update_performance_def recompute_performance_def
          Let_def count_outcome_snoc total_abs_profit_snoc)
  next
    case 3
    with assms nn show ?thesis
      by (simp add: agrees_on_maintained_def update_performance_def recompute_performance_def
          Let_def count_outcome_snoc total_abs_profit_snoc)
  next
    case 4
    with assms nn show ?thesis
      by (simp add: agrees_on_maintained_def update_performance_def recompute_performance_def
          Let_def count_outcome_snoc total_abs_profit_snoc)
  qed
qed

lemma recorder_maintains_other_aggregates:
  assumes "agrees_on_maintained (performance st) (trades st)"
  shows "agrees_on_maintained (performance (fst (recordTradeOutcome st now a s oc p)))
           (trades (fst (recordTradeOutcome st now a s oc p)))"
proof (cases "oc = [] \<or> oc = ''ACTIVE'' \<or> oc = ''OPEN'' \<or> recorded s
              \<or> duplicate_exists (trades st) a s oc")
  case True
  then show ?thesis
    using assms by (simp add: recordTradeOutcome_guard)
next
  case False
  then show ?thesis
    using assms by (simp add: recordTradeOutcome_def Let_def update_performance_agrees)
qed

lemma initial_engine_agrees: "agrees_on_maintained (performance initial_engine) (trades initial_engine)"
  by (simp add: agrees_on_maintained_def initial_engine_def initial_performance_def
      recompute_performance_def count_outcome_def total_abs_profit_def Let_def)

end
